theory Spec2Isabelle
  imports Main
begin

section \<open>Python values and their text\<close>

text \<open>
  The parameters of the loader are ordinary Python objects. They are modelled by the
  values the loader's checks and filename templates can tell apart: \<open>None\<close>,
  booleans, (unbounded) integers and strings. Strings are byte strings. Objects of any
  other type, which only the unchecked parameters of \<open>get_d2v\<close> can carry into the
  loader, have a section of their own below.
\<close>

datatype pyval = PNone | PBool bool | PInt int | PStr string

text \<open>Truth value testing, as \<open>x if cond else y\<close> applies it.\<close>

fun truthy :: "pyval \<Rightarrow> bool" where
  "truthy PNone = False"
| "truthy (PBool b) = b"
| "truthy (PInt i) = (i \<noteq> 0)"
| "truthy (PStr s) = (s \<noteq> [])"

text \<open>\<open>isinstance(x, bool)\<close>: an \<open>int\<close> is not a \<open>bool\<close>.\<close>

fun is_bool :: "pyval \<Rightarrow> bool" where
  "is_bool (PBool b) = True"
| "is_bool v = False"

text \<open>Decimal digits of a natural number, most significant first.\<close>

fun str_nat :: "nat \<Rightarrow> string" where
  "str_nat n =
     (if n < 10 then [''0123456789'' ! n]
      else str_nat (n div 10) @ [''0123456789'' ! (n mod 10)])"

declare str_nat.simps [simp del]

definition str_int :: "int \<Rightarrow> string" where
  "str_int i = (if i < 0 then CHR ''-'' # str_nat (nat (- i)) else str_nat (nat i))"

text \<open>\<open>str(x)\<close>, which an empty replacement field \<open>{}\<close> of \<open>str.format\<close> inserts.\<close>

fun py_str :: "pyval \<Rightarrow> string" where
  "py_str PNone = ''None''"
| "py_str (PBool b) = (if b then ''True'' else ''False'')"
| "py_str (PInt i) = str_int i"
| "py_str (PStr s) = s"

section \<open>Errors\<close>

text \<open>
  Every exception the loader can raise is a value. \<open>AssertionError\<close> and
  \<open>FileNotFoundError\<close> carry their message. \<open>IsADirectoryError\<close> and
  \<open>UnpicklingError\<close> stand for what \<open>open\<close> and \<open>pickle.load\<close> raise on a path
  that is a directory and on a file that does not deserialize. \<open>OSError\<close> is any other
  failure of \<open>open\<close> that the operating system reports, with its error number and the
  path: a component of the path is not a directory (NotADirectoryError), the name is too
  long, permission is denied (PermissionError), too many symbolic links. None of these
  is a FileNotFoundError. \<open>ValueError\<close> is what the stacking primitives of the numeric
  libraries raise, \<open>open\<close> on a path with an embedded NUL byte, and \<open>str.format\<close> on
  a lone brace; \<open>IndexError\<close> is \<open>str.format\<close> running out of arguments.
  \<open>NotModelled\<close> marks an input this model has no case for.
\<close>

datatype os_errno = ENOTDIR | ENAMETOOLONG | EACCES | ELOOP

datatype error =
    AssertionError string
  | FileNotFoundError string
  | IsADirectoryError string
  | OSError os_errno string
  | UnpicklingError
  | ValueError
  | IndexError
  | NotModelled

section \<open>\<open>str.format\<close> with automatically numbered fields\<close>

text \<open>
  \<open>template.format(args)\<close>: each \<open>{}\<close> takes the next argument's \<open>str\<close>,
  \<open>{{\<close> and \<open>}}\<close> are escaped braces. A field with no argument left raises
  IndexError, a lone brace raises ValueError; surplus arguments are ignored. The
  loader's templates use \<open>{}\<close> only, so numbered or named fields, conversions and
  format specifications have no case here and are reported as \<open>NotModelled\<close>.
\<close>

fun py_format :: "string \<Rightarrow> pyval list \<Rightarrow> error + string" where
  "py_format [] args = Inr []"
| "py_format [c] args =
     (if c = CHR ''{'' \<or> c = CHR ''}'' then Inl ValueError else Inr [c])"
| "py_format (c # d # t) args =
     (if c = CHR ''{'' then
        (if d = CHR ''}'' then
           (case args of
              [] \<Rightarrow> Inl IndexError
            | a # as \<Rightarrow>
                (case py_format t as of
                   Inl e \<Rightarrow> Inl e
                 | Inr s \<Rightarrow> Inr (py_str a @ s)))
         else if d = CHR ''{'' then
           (case py_format t args of
              Inl e \<Rightarrow> Inl e
            | Inr s \<Rightarrow> Inr (CHR ''{'' # s))
         else Inl NotModelled)
      else if c = CHR ''}'' then
        (if d = CHR ''}'' then
           (case py_format t args of
              Inl e \<Rightarrow> Inl e
            | Inr s \<Rightarrow> Inr (CHR ''}'' # s))
         else Inl ValueError)
      else
        (case py_format (d # t) args of
           Inl e \<Rightarrow> Inl e
         | Inr s \<Rightarrow> Inr (c # s)))"

section \<open>Filename keys\<close>

definition get_onehot_filename :: "pyval \<Rightarrow> pyval \<Rightarrow> pyval \<Rightarrow> error + string" where
  "get_onehot_filename corpus scorer normalize' =
     py_format ''{}-onehot(scorer={}{}).pkl''
       [corpus, scorer, PStr (if truthy normalize' then '', normalized'' else '''')]"

definition get_d2v_filename ::
  "pyval \<Rightarrow> pyval \<Rightarrow> pyval \<Rightarrow> pyval \<Rightarrow> pyval \<Rightarrow> pyval \<Rightarrow> error + string" where
  "get_d2v_filename corpus vec_size win_size min_count dm epochs =
     py_format ''{}-d2v(vecsize={}, winsize={}, mincount={}, {}, epochs={}).pkl''
       [corpus, vec_size, win_size, min_count,
        PStr (if truthy dm then ''dm'' else ''dbow''), epochs]"

definition get_nd2v_filename :: "pyval \<Rightarrow> pyval \<Rightarrow> error + string" where
  "get_nd2v_filename corpus normalizer =
     py_format ''{}-nd2v(normalizer={}).pkl'' [corpus, normalizer]"

section \<open>Artifacts and the stacking primitives\<close>

text \<open>
  What a pickled file holds, after the data model of the specification: a sparse
  matrix (one-hot), a dense two-dimensional array (doc2vec, naive doc2vec) or a
  one-dimensional vector (labels). A sparse matrix is its shape and its stored entries
  (row, column, number); a dense array is its shape and its rows. The element type
  \<open>'a\<close> is left open: the loader never inspects a number.
\<close>

record 'a csr_matrix =
  sp_rows :: nat
  sp_cols :: nat
  sp_entries :: "(nat \<times> nat \<times> 'a) list"

record 'a ndarray =
  nd_rows :: nat
  nd_cols :: nat
  nd_data :: "'a list list"

datatype 'a artifact = Sparse "'a csr_matrix" | Dense "'a ndarray" | Vector "'a list"

text \<open>
  \<open>scipy.sparse.hstack([x, y])\<close>, after the library's documentation: the blocks are
  sparse matrices with the same number of rows, the result has the columns of \<open>x\<close>
  followed by those of \<open>y\<close>; blocks of different row counts raise ValueError. Blocks
  that are not sparse matrices are not what a one-hot file holds; the library's
  behaviour on them varies with its version, and the model has no case for them: they
  are reported as \<open>NotModelled\<close>.
\<close>

definition hstack :: "'a artifact \<Rightarrow> 'a artifact \<Rightarrow> error + 'a artifact" where
  "hstack x y =
     (case x of
        Sparse a \<Rightarrow>
          (case y of
             Sparse b \<Rightarrow>
               (if sp_rows a = sp_rows b then
                  Inr (Sparse \<lparr>sp_rows = sp_rows a, sp_cols = sp_cols a + sp_cols b,
                         sp_entries = sp_entries a @
                           map (\<lambda>(i, j, v). (i, sp_cols a + j, v)) (sp_entries b)\<rparr>)
                else Inl ValueError)
           | _ \<Rightarrow> Inl NotModelled)
      | _ \<Rightarrow> Inl NotModelled)"

text \<open>
  \<open>numpy.concatenate((x, y), axis=1)\<close>, after the library's documentation: two
  two-dimensional arrays with the same number of rows are joined row by row. Arrays
  whose row counts differ, one-dimensional arrays (axis 1 is out of bounds; AxisError
  is a ValueError) and objects that are no arrays (zero-dimensional after conversion)
  raise ValueError.
\<close>

definition np_concatenate :: "'a artifact \<Rightarrow> 'a artifact \<Rightarrow> error + 'a artifact" where
  "np_concatenate x y =
     (case x of
        Dense a \<Rightarrow>
          (case y of
             Dense b \<Rightarrow>
               (if nd_rows a = nd_rows b then
                  Inr (Dense \<lparr>nd_rows = nd_rows a, nd_cols = nd_cols a + nd_cols b,
                         nd_data = map2 (@) (nd_data a) (nd_data b)\<rparr>)
                else Inl ValueError)
           | _ \<Rightarrow> Inl ValueError)
      | _ \<Rightarrow> Inl ValueError)"

section \<open>The world: file system, standard output, I/O log\<close>

text \<open>
  The file system answers a path with nothing (no such file or directory), a directory,
  a file, or a refusal to resolve the path at all (\<open>Refused\<close> with the error number);
  a file either deserializes to an artifact or does not. Every call of \<open>stat\<close> and
  \<open>open\<close> the loader makes is appended to \<open>io_log\<close>, every \<open>print\<close> to
  \<open>stdout\<close>. \<open>print(e)\<close> of the operating system's error for a path is recorded as
  \<open>OSErrorText path\<close>: its wording is the interpreter's.
\<close>

datatype 'a node = Directory | File "'a artifact option" | Refused os_errno

datatype io_event = Stat string | Open string

datatype out = Line string | OSErrorText string

record 'a world =
  fs :: "string \<Rightarrow> 'a node option"
  stdout :: "out list"
  io_log :: "io_event list"

definition py_print :: "out \<Rightarrow> 'a world \<Rightarrow> 'a world" where
  "py_print x w = w\<lparr>stdout := stdout w @ [x]\<rparr>"

text \<open>\<open>os.path.join(a, b)\<close> of \<open>posixpath\<close>.\<close>

definition path_join :: "string \<Rightarrow> string \<Rightarrow> string" where
  "path_join a b =
     (if b \<noteq> [] \<and> hd b = CHR ''/'' then b
      else if a = [] \<or> last a = CHR ''/'' then a @ b
      else a @ ''/'' @ b)"

section \<open>The loader\<close>

record EmbeddingLoader =
  parent_dir :: string

text \<open>
  \<open>__init__\<close>: \<open>os.path.isdir\<close> is one \<open>stat\<close> of the path, true on a directory
  and false on everything else (a file, no entry, a path the file system refuses); the
  assertion fails with the formatted message, otherwise the object holds the path.
\<close>

definition EmbeddingLoader_init ::
  "string \<Rightarrow> 'a world \<Rightarrow> (error + EmbeddingLoader) \<times> 'a world" where
  "EmbeddingLoader_init parent_dir' w =
     (let w0 = w\<lparr>io_log := io_log w @ [Stat parent_dir']\<rparr> in
      if fs w parent_dir' = Some Directory then (Inr \<lparr>parent_dir = parent_dir'\<rparr>, w0)
      else
        (case py_format ''{} is not a valid directory'' [PStr parent_dir'] of
           Inl e \<Rightarrow> (Inl e, w0)
         | Inr msg \<Rightarrow> (Inl (AssertionError msg), w0)))"

text \<open>
  \<open>get_file\<close>: \<open>open\<close> and \<open>pickle.load\<close>. \<open>open\<close> rejects a path with an
  embedded NUL byte with ValueError before the file system is asked; otherwise it
  succeeds or raises what the file system answers. Only FileNotFoundError is caught:
  three lines are printed and a new FileNotFoundError with the path as its message is
  raised. Every other exception leaves \<open>get_file\<close> as it is, with nothing printed.
\<close>

definition get_file :: "string \<Rightarrow> 'a world \<Rightarrow> (error + 'a artifact) \<times> 'a world" where
  "get_file path w =
     (let w0 = w\<lparr>io_log := io_log w @ [Open path]\<rparr> in
      if CHR 0x00 \<in> set path then (Inl ValueError, w0)
      else
        (case fs w path of
           Some (File (Some item)) \<Rightarrow> (Inr item, w0)
         | Some (File None) \<Rightarrow> (Inl UnpicklingError, w0)
         | Some Directory \<Rightarrow> (Inl (IsADirectoryError path), w0)
         | Some (Refused errno) \<Rightarrow> (Inl (OSError errno path), w0)
         | None \<Rightarrow>
             (case py_format ''unable to load {}, see stack trace below'' [PStr path] of
                Inl e \<Rightarrow> (Inl e, w0)
              | Inr l1 \<Rightarrow>
                  (let w1 = py_print (Line l1) w0 in
                   case py_format ''double check that you have the file saved {}''
                          [PStr path] of
                     Inl e \<Rightarrow> (Inl e, w1)
                   | Inr l2 \<Rightarrow>
                       (let w2 = py_print (Line l2) w1;
                            w3 = py_print (OSErrorText path) w2 in
                        case py_format ''{}'' [PStr path] of
                          Inl e \<Rightarrow> (Inl e, w3)
                        | Inr msg \<Rightarrow> (Inl (FileNotFoundError msg), w3))))))"

text \<open>
  The load operations take the object and the world and return the result, the object
  and the world. A failed assertion raises before anything else happens.
\<close>

function get_onehot ::
  "EmbeddingLoader \<Rightarrow> pyval \<Rightarrow> pyval \<Rightarrow> pyval \<Rightarrow> 'a world \<Rightarrow>
     (error + 'a artifact) \<times> EmbeddingLoader \<times> 'a world" where
  "get_onehot self corpus scorer normalize' w =
     (if corpus \<notin> set [PStr ''title'', PStr ''text'', PStr ''concat''] then
        (Inl (AssertionError
           (''`corpus` must be either 'title', 'text', or 'concat'' @ [CHR 0x27])), self, w)
      else if scorer \<notin> set [PStr ''count'', PStr ''tfidf''] then
        (Inl (AssertionError
           (''`scorer` must be either 'count' or 'tfidf'' @ [CHR 0x27])), self, w)
      else if \<not> is_bool normalize' then
        (Inl (AssertionError ''`normalize` must be a bool''), self, w)
      else if corpus \<in> set [PStr ''title'', PStr ''text''] then
        (case get_onehot_filename corpus scorer normalize' of
           Inl e \<Rightarrow> (Inl e, self, w)
         | Inr filename \<Rightarrow>
             (case get_file (path_join (parent_dir self) filename) w of
                (r, w1) \<Rightarrow> (r, self, w1)))
      else
        (case get_onehot self (PStr ''title'') scorer normalize' w of
           (Inl e, self1, w1) \<Rightarrow> (Inl e, self1, w1)
         | (Inr a, self1, w1) \<Rightarrow>
             (case get_onehot self1 (PStr ''text'') scorer normalize' w1 of
                (Inl e, self2, w2) \<Rightarrow> (Inl e, self2, w2)
              | (Inr b, self2, w2) \<Rightarrow> (hstack a b, self2, w2))))"
  by pat_completeness auto
termination
  by (relation "measure (\<lambda>(self, corpus, rest). if corpus = PStr ''concat'' then 1 else 0)")
     auto

declare get_onehot.simps [simp del]

function get_d2v ::
  "EmbeddingLoader \<Rightarrow> pyval \<Rightarrow> pyval \<Rightarrow> pyval \<Rightarrow> pyval \<Rightarrow> pyval \<Rightarrow> pyval \<Rightarrow> 'a world \<Rightarrow>
     (error + 'a artifact) \<times> EmbeddingLoader \<times> 'a world" where
  "get_d2v self corpus vec_size win_size min_count dm epochs w =
     (if corpus \<notin> set [PStr ''title'', PStr ''text'', PStr ''concat''] then
        (Inl (AssertionError
           (''`corpus` must be either 'title', 'text', or 'concat'' @ [CHR 0x27])), self, w)
      else if corpus \<in> set [PStr ''title'', PStr ''text''] then
        (case get_d2v_filename corpus vec_size win_size min_count dm epochs of
           Inl e \<Rightarrow> (Inl e, self, w)
         | Inr filename \<Rightarrow>
             (case get_file (path_join (parent_dir self) filename) w of
                (r, w1) \<Rightarrow> (r, self, w1)))
      else
        (case get_d2v self (PStr ''title'') vec_size win_size min_count dm epochs w of
           (Inl e, self1, w1) \<Rightarrow> (Inl e, self1, w1)
         | (Inr a, self1, w1) \<Rightarrow>
             (case get_d2v self1 (PStr ''text'') vec_size win_size min_count dm epochs w1 of
                (Inl e, self2, w2) \<Rightarrow> (Inl e, self2, w2)
              | (Inr b, self2, w2) \<Rightarrow> (np_concatenate a b, self2, w2))))"
  by pat_completeness auto
termination
  by (relation "measure (\<lambda>(self, corpus, rest). if corpus = PStr ''concat'' then 1 else 0)")
     auto

declare get_d2v.simps [simp del]

function get_nd2v ::
  "EmbeddingLoader \<Rightarrow> pyval \<Rightarrow> pyval \<Rightarrow> 'a world \<Rightarrow>
     (error + 'a artifact) \<times> EmbeddingLoader \<times> 'a world" where
  "get_nd2v self corpus normalizer w =
     (if corpus \<notin> set [PStr ''title'', PStr ''text'', PStr ''concat''] then
        (Inl (AssertionError
           (''`corpus` must be either 'title', 'text', or 'concat'' @ [CHR 0x27])), self, w)
      else if \<not> (normalizer = PNone \<or> normalizer \<in> set [PStr ''l2'', PStr ''mean'']) then
        (Inl (AssertionError ''`normalizer` must be 'l2', 'mean' or None''), self, w)
      else if corpus \<in> set [PStr ''title'', PStr ''text''] then
        (case get_nd2v_filename corpus normalizer of
           Inl e \<Rightarrow> (Inl e, self, w)
         | Inr filename \<Rightarrow>
             (case get_file (path_join (parent_dir self) filename) w of
                (r, w1) \<Rightarrow> (r, self, w1)))
      else
        (case get_nd2v self (PStr ''title'') normalizer w of
           (Inl e, self1, w1) \<Rightarrow> (Inl e, self1, w1)
         | (Inr a, self1, w1) \<Rightarrow>
             (case get_nd2v self1 (PStr ''text'') normalizer w1 of
                (Inl e, self2, w2) \<Rightarrow> (Inl e, self2, w2)
              | (Inr b, self2, w2) \<Rightarrow> (np_concatenate a b, self2, w2))))"
  by pat_completeness auto
termination
  by (relation "measure (\<lambda>(self, corpus, rest). if corpus = PStr ''concat'' then 1 else 0)")
     auto

declare get_nd2v.simps [simp del]

definition get_label ::
  "EmbeddingLoader \<Rightarrow> 'a world \<Rightarrow> (error + 'a artifact) \<times> EmbeddingLoader \<times> 'a world" where
  "get_label self w =
     (case get_file (path_join (parent_dir self) ''label.pkl'') w of
        (r, w1) \<Rightarrow> (r, self, w1))"

section \<open>Combining two loads\<close>

text \<open>
  What "the stack of the title load followed by the text load" means on results: the
  title load's exception if it raised, else the text load's exception if it raised,
  else the stacking primitive applied to the two artifacts.
\<close>

definition combine_loads ::
  "('x \<Rightarrow> 'x \<Rightarrow> error + 'x) \<Rightarrow> error + 'x \<Rightarrow> error + 'x \<Rightarrow> error + 'x" where
  "combine_loads f r1 r2 =
     (case r1 of
        Inl e \<Rightarrow> Inl e
      | Inr a \<Rightarrow> (case r2 of Inl e \<Rightarrow> Inl e | Inr b \<Rightarrow> f a b))"

section \<open>Paths that are not found\<close>

text \<open>
  \<open>open\<close> on a path raises FileNotFoundError exactly when the path holds no NUL byte
  and the file system has no entry for it.
\<close>

definition open_not_found :: "'a world \<Rightarrow> string \<Rightarrow> bool" where
  "open_not_found w path \<longleftrightarrow> CHR 0x00 \<notin> set path \<and> fs w path = None"

section \<open>Unchecked parameters: arbitrary objects\<close>








section \<open>A small embeddings directory\<close>

text \<open>
  A concrete directory on which the theorems below are instantiated: count one-hot
  matrices and default doc2vec and naive doc2vec arrays of two documents each, and, for
  the tfidf scorer, min_count 25 and the l2 normalizer, title and text artifacts whose
  document counts differ. The dm doc2vec array exists for the title only, and there is
  no label file.
\<close>

definition example_fs :: "string \<Rightarrow> int node option" where
  "example_fs = map_of
     [(''embeddings'', Directory),
      (''embeddings/title-onehot(scorer=count).pkl'',
         File (Some (Sparse \<lparr>sp_rows = 2, sp_cols = 3, sp_entries = [(0, 1, 1), (1, 2, 4)]\<rparr>))),
      (''embeddings/text-onehot(scorer=count).pkl'',
         File (Some (Sparse \<lparr>sp_rows = 2, sp_cols = 4, sp_entries = [(0, 0, 2), (1, 3, 1)]\<rparr>))),
      (''embeddings/title-onehot(scorer=tfidf).pkl'',
         File (Some (Sparse \<lparr>sp_rows = 2, sp_cols = 3, sp_entries = [(0, 1, 7)]\<rparr>))),
      (''embeddings/text-onehot(scorer=tfidf).pkl'',
         File (Some (Sparse \<lparr>sp_rows = 3, sp_cols = 4, sp_entries = [(2, 0, 9)]\<rparr>))),
      (''embeddings/title-d2v(vecsize=300, winsize=13, mincount=5, dbow, epochs=100).pkl'',
         File (Some (Dense \<lparr>nd_rows = 2, nd_cols = 2, nd_data = [[1, 2], [3, 4]]\<rparr>))),
      (''embeddings/text-d2v(vecsize=300, winsize=13, mincount=5, dbow, epochs=100).pkl'',
         File (Some (Dense \<lparr>nd_rows = 2, nd_cols = 1, nd_data = [[5], [6]]\<rparr>))),
      (''embeddings/title-d2v(vecsize=300, winsize=13, mincount=5, dm, epochs=100).pkl'',
         File (Some (Dense \<lparr>nd_rows = 2, nd_cols = 2, nd_data = [[0, 1], [1, 0]]\<rparr>))),
      (''embeddings/title-d2v(vecsize=300, winsize=13, mincount=25, dbow, epochs=100).pkl'',
         File (Some (Dense \<lparr>nd_rows = 2, nd_cols = 1, nd_data = [[1], [2]]\<rparr>))),
      (''embeddings/text-d2v(vecsize=300, winsize=13, mincount=25, dbow, epochs=100).pkl'',
         File (Some (Dense \<lparr>nd_rows = 3, nd_cols = 1, nd_data = [[3], [4], [5]]\<rparr>))),
      (''embeddings/title-nd2v(normalizer=None).pkl'',
         File (Some (Dense \<lparr>nd_rows = 2, nd_cols = 1, nd_data = [[8], [9]]\<rparr>))),
      (''embeddings/text-nd2v(normalizer=None).pkl'',
         File (Some (Dense \<lparr>nd_rows = 2, nd_cols = 2, nd_data = [[1, 0], [0, 1]]\<rparr>))),
      (''embeddings/title-nd2v(normalizer=l2).pkl'',
         File (Some (Dense \<lparr>nd_rows = 1, nd_cols = 1, nd_data = [[8]]\<rparr>))),
      (''embeddings/text-nd2v(normalizer=l2).pkl'',
         File (Some (Dense \<lparr>nd_rows = 2, nd_cols = 1, nd_data = [[1], [0]]\<rparr>)))]"

definition example_world :: "int world" where
  "example_world = \<lparr>fs = example_fs, stdout = [], io_log = []\<rparr>"

definition example_loader :: EmbeddingLoader where
  "example_loader = \<lparr>parent_dir = ''embeddings''\<rparr>"

section \<open>Filename keys: what the templates produce\<close>

lemma get_onehot_filename_eq:
  "get_onehot_filename c s n =
     Inr (py_str c @ ''-onehot(scorer='' @ py_str s @
          (if truthy n then '', normalized'' else '''') @ '').pkl'')"
  by (simp add: get_onehot_filename_def)

lemma get_d2v_filename_eq:
  "get_d2v_filename c v wn m d e =
     Inr (py_str c @ ''-d2v(vecsize='' @ py_str v @ '', winsize='' @ py_str wn @
          '', mincount='' @ py_str m @ '', '' @ (if truthy d then ''dm'' else ''dbow'') @
          '', epochs='' @ py_str e @ '').pkl'')"
  by (simp add: get_d2v_filename_def)

lemma get_nd2v_filename_eq:
  "get_nd2v_filename c n = Inr (py_str c @ ''-nd2v(normalizer='' @ py_str n @ '').pkl'')"
  by (simp add: get_nd2v_filename_def)

section \<open>The load operations, unfolded\<close>

lemma get_file_fs: "fs (snd (get_file p w)) = fs w"
  by (simp add: get_file_def py_print_def Let_def split: option.splits node.splits sum.splits)

lemma get_file_result:
  "fst (get_file p w) =
     (if CHR 0x00 \<in> set p then Inl ValueError
      else
        (case fs w p of
           Some (File (Some item)) \<Rightarrow> Inr item
         | Some (File None) \<Rightarrow> Inl UnpicklingError
         | Some Directory \<Rightarrow> Inl (IsADirectoryError p)
         | Some (Refused errno) \<Rightarrow> Inl (OSError errno p)
         | None \<Rightarrow> Inl (FileNotFoundError p)))"
  by (simp add: get_file_def py_print_def Let_def split: option.splits node.splits sum.splits)

lemma get_file_missing:
  "CHR 0x00 \<notin> set p \<Longrightarrow> fs w p = None \<Longrightarrow>
   get_file p w =
     (Inl (FileNotFoundError p),
      w\<lparr>io_log := io_log w @ [Open p],
        stdout := stdout w @
          [Line (''unable to load '' @ p @ '', see stack trace below''),
           Line (''double check that you have the file saved '' @ p),
           OSErrorText p]\<rparr>)"
  by (simp add: get_file_def py_print_def Let_def)

lemma get_file_nul:
  "CHR 0x00 \<in> set p \<Longrightarrow> get_file p w = (Inl ValueError, w\<lparr>io_log := io_log w @ [Open p]\<rparr>)"
  by (simp add: get_file_def Let_def)

lemma get_file_refused:
  "CHR 0x00 \<notin> set p \<Longrightarrow> fs w p = Some (Refused errno) \<Longrightarrow>
   get_file p w = (Inl (OSError errno p), w\<lparr>io_log := io_log w @ [Open p]\<rparr>)"
  by (simp add: get_file_def Let_def)


lemma get_onehot_bad_corpus:
  "c \<notin> set [PStr ''title'', PStr ''text'', PStr ''concat''] \<Longrightarrow>
   get_onehot self c s n w =
     (Inl (AssertionError
        (''`corpus` must be either 'title', 'text', or 'concat'' @ [CHR 0x27])), self, w)"
  by (subst get_onehot.simps) simp

lemma get_onehot_leaf:
  "c = ''title'' \<or> c = ''text'' \<Longrightarrow>
   get_onehot self (PStr c) s n w =
     (if s \<notin> set [PStr ''count'', PStr ''tfidf''] then
        (Inl (AssertionError
           (''`scorer` must be either 'count' or 'tfidf'' @ [CHR 0x27])), self, w)
      else if \<not> is_bool n then
        (Inl (AssertionError ''`normalize` must be a bool''), self, w)
      else
        (fst (get_file (path_join (parent_dir self)
                (c @ ''-onehot(scorer='' @ py_str s @
                 (if truthy n then '', normalized'' else '''') @ '').pkl'')) w),
         self,
         snd (get_file (path_join (parent_dir self)
                (c @ ''-onehot(scorer='' @ py_str s @
                 (if truthy n then '', normalized'' else '''') @ '').pkl'')) w)))"
  by (subst get_onehot.simps) (auto simp: get_onehot_filename_eq split: prod.splits)

lemma get_onehot_concat:
  "get_onehot self (PStr ''concat'') s n w =
     (if s \<notin> set [PStr ''count'', PStr ''tfidf''] then
        (Inl (AssertionError
           (''`scorer` must be either 'count' or 'tfidf'' @ [CHR 0x27])), self, w)
      else if \<not> is_bool n then
        (Inl (AssertionError ''`normalize` must be a bool''), self, w)
      else
        (case get_onehot self (PStr ''title'') s n w of
           (Inl e, self1, w1) \<Rightarrow> (Inl e, self1, w1)
         | (Inr a, self1, w1) \<Rightarrow>
             (case get_onehot self1 (PStr ''text'') s n w1 of
                (Inl e, self2, w2) \<Rightarrow> (Inl e, self2, w2)
              | (Inr b, self2, w2) \<Rightarrow> (hstack a b, self2, w2))))"
  by (subst get_onehot.simps) simp


lemma get_onehot_leaf_self:
  "c = ''title'' \<or> c = ''text'' \<Longrightarrow> fst (snd (get_onehot self (PStr c) s n w)) = self"
  by (simp add: get_onehot_leaf)

lemma get_onehot_leaf_fs:
  "c = ''title'' \<or> c = ''text'' \<Longrightarrow> fs (snd (snd (get_onehot self (PStr c) s n w))) = fs w"
  by (simp add: get_onehot_leaf get_file_fs)

lemma get_onehot_leaf_result_fs:
  "c = ''title'' \<or> c = ''text'' \<Longrightarrow> fs w' = fs w \<Longrightarrow>
   fst (get_onehot self (PStr c) s n w') = fst (get_onehot self (PStr c) s n w)"
  by (simp add: get_onehot_leaf get_file_result)

lemma get_onehot_concat_result:
  "fst (get_onehot self (PStr ''concat'') s n w) =
     combine_loads hstack (fst (get_onehot self (PStr ''title'') s n w))
       (fst (get_onehot self (PStr ''text'') s n w))"
proof (cases "s \<in> set [PStr ''count'', PStr ''tfidf''] \<and> is_bool n")
  case False
  then show ?thesis
    by (auto simp: get_onehot_concat get_onehot_leaf combine_loads_def)
next
  case True
  obtain r1 s1 w1 where T: "get_onehot self (PStr ''title'') s n w = (r1, s1, w1)"
    by (cases "get_onehot self (PStr ''title'') s n w") auto
  have s1: "s1 = self"
    using get_onehot_leaf_self [of "''title''" self s n w] T by simp
  have w1: "fs w1 = fs w"
    using get_onehot_leaf_fs [of "''title''" self s n w] T by simp
  have r2: "fst (get_onehot self (PStr ''text'') s n w1) = fst (get_onehot self (PStr ''text'') s n w)"
    using w1 by (rule get_onehot_leaf_result_fs [OF disjI2 [OF refl]])
  obtain r2 s2 w2 where X: "get_onehot self (PStr ''text'') s n w1 = (r2, s2, w2)"
    by (cases "get_onehot self (PStr ''text'') s n w1") auto
  from True have "get_onehot self (PStr ''concat'') s n w =
      (case get_onehot self (PStr ''title'') s n w of
         (Inl e, self1, w1) \<Rightarrow> (Inl e, self1, w1)
       | (Inr a, self1, w1) \<Rightarrow>
           (case get_onehot self1 (PStr ''text'') s n w1 of
              (Inl e, self2, w2) \<Rightarrow> (Inl e, self2, w2)
            | (Inr b, self2, w2) \<Rightarrow> (hstack a b, self2, w2)))"
    by (simp only: get_onehot_concat if_False not_not simp_thms)
  then show ?thesis
    using T s1 X r2 by (auto simp: combine_loads_def split: sum.splits)
qed

lemma get_onehot_concat_self:
  "fst (snd (get_onehot self (PStr ''concat'') s n w)) = self"
proof -
  obtain r1 s1 w1 where T: "get_onehot self (PStr ''title'') s n w = (r1, s1, w1)"
    by (cases "get_onehot self (PStr ''title'') s n w") auto
  have s1: "s1 = self"
    using get_onehot_leaf_self [of "''title''" self s n w] T by simp
  obtain r2 s2 w2 where X: "get_onehot self (PStr ''text'') s n w1 = (r2, s2, w2)"
    by (cases "get_onehot self (PStr ''text'') s n w1") auto
  have s2: "s2 = self"
    using get_onehot_leaf_self [of "''text''" self s n w1] X by simp
  show ?thesis
    using T s1 X s2 by (auto simp: get_onehot_concat split: sum.splits)
qed

lemma get_onehot_concat_fs:
  "fs (snd (snd (get_onehot self (PStr ''concat'') s n w))) = fs w"
proof -
  obtain r1 s1 w1 where T: "get_onehot self (PStr ''title'') s n w = (r1, s1, w1)"
    by (cases "get_onehot self (PStr ''title'') s n w") auto
  have s1: "s1 = self"
    using get_onehot_leaf_self [of "''title''" self s n w] T by simp
  have w1: "fs w1 = fs w"
    using get_onehot_leaf_fs [of "''title''" self s n w] T by simp
  obtain r2 s2 w2 where X: "get_onehot self (PStr ''text'') s n w1 = (r2, s2, w2)"
    by (cases "get_onehot self (PStr ''text'') s n w1") auto
  have w2: "fs w2 = fs w1"
    using get_onehot_leaf_fs [of "''text''" self s n w1] X by simp
  show ?thesis
    using T s1 X w1 w2 by (auto simp: get_onehot_concat split: sum.splits)
qed

lemma corpus_cases:
  "c \<notin> set [PStr ''title'', PStr ''text'', PStr ''concat''] \<or> c = PStr ''title'' \<or>
   c = PStr ''text'' \<or> c = PStr ''concat''"
  by auto

lemma get_onehot_self: "fst (snd (get_onehot self c s n w)) = self"
  using corpus_cases [of c]
  by (elim disjE) (simp_all add: get_onehot_bad_corpus get_onehot_leaf_self get_onehot_concat_self)

lemma get_onehot_fs: "fs (snd (snd (get_onehot self c s n w))) = fs w"
  using corpus_cases [of c]
  by (elim disjE) (simp_all add: get_onehot_bad_corpus get_onehot_leaf_fs get_onehot_concat_fs)

lemma get_onehot_result_fs:
  "fs w' = fs w \<Longrightarrow> fst (get_onehot self c s n w') = fst (get_onehot self c s n w)"
proof -
  assume eq: "fs w' = fs w"
  have leaf: "fst (get_onehot self (PStr c') s n w') = fst (get_onehot self (PStr c') s n w)"
    if "c' = ''title'' \<or> c' = ''text''" for c'
    using that eq by (rule get_onehot_leaf_result_fs)
  show ?thesis
    using corpus_cases [of c]
  proof (elim disjE)
    assume "c \<notin> set [PStr ''title'', PStr ''text'', PStr ''concat'']"
    then show ?thesis by (simp add: get_onehot_bad_corpus)
  next
    assume "c = PStr ''title''"
    then show ?thesis using leaf [of "''title''"] by simp
  next
    assume "c = PStr ''text''"
    then show ?thesis using leaf [of "''text''"] by simp
  next
    assume "c = PStr ''concat''"
    then show ?thesis
      using leaf [of "''title''"] leaf [of "''text''"]
      by (simp only: get_onehot_concat_result simp_thms)
  qed
qed


lemma get_d2v_bad_corpus:
  "c \<notin> set [PStr ''title'', PStr ''text'', PStr ''concat''] \<Longrightarrow>
   get_d2v self c v wn m d e w =
     (Inl (AssertionError
        (''`corpus` must be either 'title', 'text', or 'concat'' @ [CHR 0x27])), self, w)"
  by (subst get_d2v.simps) simp

lemma get_d2v_leaf:
  "c = ''title'' \<or> c = ''text'' \<Longrightarrow>
   get_d2v self (PStr c) v wn m d e w =
     (fst (get_file (path_join (parent_dir self)
             (c @ ''-d2v(vecsize='' @ py_str v @ '', winsize='' @ py_str wn @
              '', mincount='' @ py_str m @ '', '' @ (if truthy d then ''dm'' else ''dbow'') @
              '', epochs='' @ py_str e @ '').pkl'')) w),
      self,
      snd (get_file (path_join (parent_dir self)
             (c @ ''-d2v(vecsize='' @ py_str v @ '', winsize='' @ py_str wn @
              '', mincount='' @ py_str m @ '', '' @ (if truthy d then ''dm'' else ''dbow'') @
              '', epochs='' @ py_str e @ '').pkl'')) w))"
  by (subst get_d2v.simps) (auto simp: get_d2v_filename_eq split: prod.splits)

lemma get_d2v_concat:
  "get_d2v self (PStr ''concat'') v wn m d e w =
     (case get_d2v self (PStr ''title'') v wn m d e w of
        (Inl x, self1, w1) \<Rightarrow> (Inl x, self1, w1)
      | (Inr a, self1, w1) \<Rightarrow>
          (case get_d2v self1 (PStr ''text'') v wn m d e w1 of
             (Inl x, self2, w2) \<Rightarrow> (Inl x, self2, w2)
           | (Inr b, self2, w2) \<Rightarrow> (np_concatenate a b, self2, w2)))"
  by (subst get_d2v.simps) simp

lemma get_d2v_leaf_self:
  "c = ''title'' \<or> c = ''text'' \<Longrightarrow> fst (snd (get_d2v self (PStr c) v wn m d e w)) = self"
  by (simp add: get_d2v_leaf)

lemma get_d2v_leaf_fs:
  "c = ''title'' \<or> c = ''text'' \<Longrightarrow>
   fs (snd (snd (get_d2v self (PStr c) v wn m d e w))) = fs w"
  by (simp add: get_d2v_leaf get_file_fs)

lemma get_d2v_leaf_result_fs:
  "c = ''title'' \<or> c = ''text'' \<Longrightarrow> fs w' = fs w \<Longrightarrow>
   fst (get_d2v self (PStr c) v wn m d e w') = fst (get_d2v self (PStr c) v wn m d e w)"
  by (simp add: get_d2v_leaf get_file_result)

lemma get_d2v_concat_result:
  "fst (get_d2v self (PStr ''concat'') v wn m d e w) =
     combine_loads np_concatenate (fst (get_d2v self (PStr ''title'') v wn m d e w))
       (fst (get_d2v self (PStr ''text'') v wn m d e w))"
proof -
  obtain r1 s1 w1 where T: "get_d2v self (PStr ''title'') v wn m d e w = (r1, s1, w1)"
    by (cases "get_d2v self (PStr ''title'') v wn m d e w") auto
  have s1: "s1 = self"
    using get_d2v_leaf_self [of "''title''" self v wn m d e w] T by simp
  have w1: "fs w1 = fs w"
    using get_d2v_leaf_fs [of "''title''" self v wn m d e w] T by simp
  have r2: "fst (get_d2v self (PStr ''text'') v wn m d e w1) =
            fst (get_d2v self (PStr ''text'') v wn m d e w)"
    using w1 by (rule get_d2v_leaf_result_fs [OF disjI2 [OF refl]])
  obtain r2 s2 w2 where X: "get_d2v self (PStr ''text'') v wn m d e w1 = (r2, s2, w2)"
    by (cases "get_d2v self (PStr ''text'') v wn m d e w1") auto
  show ?thesis
    using T s1 X r2 by (auto simp: get_d2v_concat combine_loads_def split: sum.splits)
qed

lemma get_d2v_concat_self:
  "fst (snd (get_d2v self (PStr ''concat'') v wn m d e w)) = self"
proof -
  obtain r1 s1 w1 where T: "get_d2v self (PStr ''title'') v wn m d e w = (r1, s1, w1)"
    by (cases "get_d2v self (PStr ''title'') v wn m d e w") auto
  have s1: "s1 = self"
    using get_d2v_leaf_self [of "''title''" self v wn m d e w] T by simp
  obtain r2 s2 w2 where X: "get_d2v self (PStr ''text'') v wn m d e w1 = (r2, s2, w2)"
    by (cases "get_d2v self (PStr ''text'') v wn m d e w1") auto
  have s2: "s2 = self"
    using get_d2v_leaf_self [of "''text''" self v wn m d e w1] X by simp
  show ?thesis
    using T s1 X s2 by (auto simp: get_d2v_concat split: sum.splits)
qed

lemma get_d2v_concat_fs:
  "fs (snd (snd (get_d2v self (PStr ''concat'') v wn m d e w))) = fs w"
proof -
  obtain r1 s1 w1 where T: "get_d2v self (PStr ''title'') v wn m d e w = (r1, s1, w1)"
    by (cases "get_d2v self (PStr ''title'') v wn m d e w") auto
  have s1: "s1 = self"
    using get_d2v_leaf_self [of "''title''" self v wn m d e w] T by simp
  have w1: "fs w1 = fs w"
    using get_d2v_leaf_fs [of "''title''" self v wn m d e w] T by simp
  obtain r2 s2 w2 where X: "get_d2v self (PStr ''text'') v wn m d e w1 = (r2, s2, w2)"
    by (cases "get_d2v self (PStr ''text'') v wn m d e w1") auto
  have w2: "fs w2 = fs w1"
    using get_d2v_leaf_fs [of "''text''" self v wn m d e w1] X by simp
  show ?thesis
    using T s1 X w1 w2 by (auto simp: get_d2v_concat split: sum.splits)
qed

lemma get_d2v_self: "fst (snd (get_d2v self c v wn m d e w)) = self"
  using corpus_cases [of c]
  by (elim disjE) (simp_all add: get_d2v_bad_corpus get_d2v_leaf_self get_d2v_concat_self)

lemma get_d2v_fs: "fs (snd (snd (get_d2v self c v wn m d e w))) = fs w"
  using corpus_cases [of c]
  by (elim disjE) (simp_all add: get_d2v_bad_corpus get_d2v_leaf_fs get_d2v_concat_fs)

lemma get_d2v_result_fs:
  "fs w' = fs w \<Longrightarrow> fst (get_d2v self c v wn m d e w') = fst (get_d2v self c v wn m d e w)"
proof -
  assume eq: "fs w' = fs w"
  have leaf: "fst (get_d2v self (PStr c') v wn m d e w') = fst (get_d2v self (PStr c') v wn m d e w)"
    if "c' = ''title'' \<or> c' = ''text''" for c'
    using that eq by (rule get_d2v_leaf_result_fs)
  show ?thesis
    using corpus_cases [of c]
  proof (elim disjE)
    assume "c \<notin> set [PStr ''title'', PStr ''text'', PStr ''concat'']"
    then show ?thesis by (simp add: get_d2v_bad_corpus)
  next
    assume "c = PStr ''title''"
    then show ?thesis using leaf [of "''title''"] by simp
  next
    assume "c = PStr ''text''"
    then show ?thesis using leaf [of "''text''"] by simp
  next
    assume "c = PStr ''concat''"
    then show ?thesis
      using leaf [of "''title''"] leaf [of "''text''"]
      by (simp only: get_d2v_concat_result simp_thms)
  qed
qed


lemma get_nd2v_bad_corpus:
  "c \<notin> set [PStr ''title'', PStr ''text'', PStr ''concat''] \<Longrightarrow>
   get_nd2v self c nz w =
     (Inl (AssertionError
        (''`corpus` must be either 'title', 'text', or 'concat'' @ [CHR 0x27])), self, w)"
  by (subst get_nd2v.simps) simp

lemma get_nd2v_leaf:
  "c = ''title'' \<or> c = ''text'' \<Longrightarrow>
   get_nd2v self (PStr c) nz w =
     (if \<not> (nz = PNone \<or> nz \<in> set [PStr ''l2'', PStr ''mean'']) then
        (Inl (AssertionError ''`normalizer` must be 'l2', 'mean' or None''), self, w)
      else
        (fst (get_file (path_join (parent_dir self)
                (c @ ''-nd2v(normalizer='' @ py_str nz @ '').pkl'')) w),
         self,
         snd (get_file (path_join (parent_dir self)
                (c @ ''-nd2v(normalizer='' @ py_str nz @ '').pkl'')) w)))"
  by (subst get_nd2v.simps) (auto simp: get_nd2v_filename_eq split: prod.splits)

lemma get_nd2v_concat:
  "get_nd2v self (PStr ''concat'') nz w =
     (if \<not> (nz = PNone \<or> nz \<in> set [PStr ''l2'', PStr ''mean'']) then
        (Inl (AssertionError ''`normalizer` must be 'l2', 'mean' or None''), self, w)
      else
        (case get_nd2v self (PStr ''title'') nz w of
           (Inl x, self1, w1) \<Rightarrow> (Inl x, self1, w1)
         | (Inr a, self1, w1) \<Rightarrow>
             (case get_nd2v self1 (PStr ''text'') nz w1 of
                (Inl x, self2, w2) \<Rightarrow> (Inl x, self2, w2)
              | (Inr b, self2, w2) \<Rightarrow> (np_concatenate a b, self2, w2))))"
  by (subst get_nd2v.simps) simp

lemma get_nd2v_leaf_self:
  "c = ''title'' \<or> c = ''text'' \<Longrightarrow> fst (snd (get_nd2v self (PStr c) nz w)) = self"
  by (simp add: get_nd2v_leaf)

lemma get_nd2v_leaf_fs:
  "c = ''title'' \<or> c = ''text'' \<Longrightarrow> fs (snd (snd (get_nd2v self (PStr c) nz w))) = fs w"
  by (simp add: get_nd2v_leaf get_file_fs)

lemma get_nd2v_leaf_result_fs:
  "c = ''title'' \<or> c = ''text'' \<Longrightarrow> fs w' = fs w \<Longrightarrow>
   fst (get_nd2v self (PStr c) nz w') = fst (get_nd2v self (PStr c) nz w)"
proof -
  assume c: "c = ''title'' \<or> c = ''text''" and eq: "fs w' = fs w"
  have "fst (get_file p w') = fst (get_file p w)" for p
    by (simp only: get_file_result eq)
  then show ?thesis
    by (simp add: get_nd2v_leaf [OF c])
qed

lemma get_nd2v_concat_result:
  "fst (get_nd2v self (PStr ''concat'') nz w) =
     combine_loads np_concatenate (fst (get_nd2v self (PStr ''title'') nz w))
       (fst (get_nd2v self (PStr ''text'') nz w))"
proof (cases "nz = PNone \<or> nz \<in> set [PStr ''l2'', PStr ''mean'']")
  case False
  then show ?thesis
    by (auto simp: get_nd2v_concat get_nd2v_leaf combine_loads_def)
next
  case True
  obtain r1 s1 w1 where T: "get_nd2v self (PStr ''title'') nz w = (r1, s1, w1)"
    by (cases "get_nd2v self (PStr ''title'') nz w") auto
  have s1: "s1 = self"
    using get_nd2v_leaf_self [of "''title''" self nz w] T by simp
  have w1: "fs w1 = fs w"
    using get_nd2v_leaf_fs [of "''title''" self nz w] T by simp
  have r2: "fst (get_nd2v self (PStr ''text'') nz w1) = fst (get_nd2v self (PStr ''text'') nz w)"
    using w1 by (rule get_nd2v_leaf_result_fs [OF disjI2 [OF refl]])
  obtain r2 s2 w2 where X: "get_nd2v self (PStr ''text'') nz w1 = (r2, s2, w2)"
    by (cases "get_nd2v self (PStr ''text'') nz w1") auto
  from True have "get_nd2v self (PStr ''concat'') nz w =
      (case get_nd2v self (PStr ''title'') nz w of
         (Inl x, self1, w1) \<Rightarrow> (Inl x, self1, w1)
       | (Inr a, self1, w1) \<Rightarrow>
           (case get_nd2v self1 (PStr ''text'') nz w1 of
              (Inl x, self2, w2) \<Rightarrow> (Inl x, self2, w2)
            | (Inr b, self2, w2) \<Rightarrow> (np_concatenate a b, self2, w2)))"
    by (simp only: get_nd2v_concat if_False not_not simp_thms)
  then show ?thesis
    using T s1 X r2 by (auto simp: combine_loads_def split: sum.splits)
qed

lemma get_nd2v_concat_self:
  "fst (snd (get_nd2v self (PStr ''concat'') nz w)) = self"
proof -
  obtain r1 s1 w1 where T: "get_nd2v self (PStr ''title'') nz w = (r1, s1, w1)"
    by (cases "get_nd2v self (PStr ''title'') nz w") auto
  have s1: "s1 = self"
    using get_nd2v_leaf_self [of "''title''" self nz w] T by simp
  obtain r2 s2 w2 where X: "get_nd2v self (PStr ''text'') nz w1 = (r2, s2, w2)"
    by (cases "get_nd2v self (PStr ''text'') nz w1") auto
  have s2: "s2 = self"
    using get_nd2v_leaf_self [of "''text''" self nz w1] X by simp
  show ?thesis
    using T s1 X s2 by (auto simp: get_nd2v_concat split: sum.splits)
qed

lemma get_nd2v_concat_fs:
  "fs (snd (snd (get_nd2v self (PStr ''concat'') nz w))) = fs w"
proof -
  obtain r1 s1 w1 where T: "get_nd2v self (PStr ''title'') nz w = (r1, s1, w1)"
    by (cases "get_nd2v self (PStr ''title'') nz w") auto
  have s1: "s1 = self"
    using get_nd2v_leaf_self [of "''title''" self nz w] T by simp
  have w1: "fs w1 = fs w"
    using get_nd2v_leaf_fs [of "''title''" self nz w] T by simp
  obtain r2 s2 w2 where X: "get_nd2v self (PStr ''text'') nz w1 = (r2, s2, w2)"
    by (cases "get_nd2v self (PStr ''text'') nz w1") auto
  have w2: "fs w2 = fs w1"
    using get_nd2v_leaf_fs [of "''text''" self nz w1] X by simp
  show ?thesis
    using T s1 X w1 w2 by (auto simp: get_nd2v_concat split: sum.splits)
qed

lemma get_nd2v_self: "fst (snd (get_nd2v self c nz w)) = self"
  using corpus_cases [of c]
  by (elim disjE) (simp_all add: get_nd2v_bad_corpus get_nd2v_leaf_self get_nd2v_concat_self)

lemma get_nd2v_fs: "fs (snd (snd (get_nd2v self c nz w))) = fs w"
  using corpus_cases [of c]
  by (elim disjE) (simp_all add: get_nd2v_bad_corpus get_nd2v_leaf_fs get_nd2v_concat_fs)

lemma get_nd2v_result_fs:
  "fs w' = fs w \<Longrightarrow> fst (get_nd2v self c nz w') = fst (get_nd2v self c nz w)"
proof -
  assume eq: "fs w' = fs w"
  have leaf: "fst (get_nd2v self (PStr c') nz w') = fst (get_nd2v self (PStr c') nz w)"
    if "c' = ''title'' \<or> c' = ''text''" for c'
    using that eq by (rule get_nd2v_leaf_result_fs)
  show ?thesis
    using corpus_cases [of c]
  proof (elim disjE)
    assume "c \<notin> set [PStr ''title'', PStr ''text'', PStr ''concat'']"
    then show ?thesis by (simp add: get_nd2v_bad_corpus)
  next
    assume "c = PStr ''title''"
    then show ?thesis using leaf [of "''title''"] by simp
  next
    assume "c = PStr ''text''"
    then show ?thesis using leaf [of "''text''"] by simp
  next
    assume "c = PStr ''concat''"
    then show ?thesis
      using leaf [of "''title''"] leaf [of "''text''"]
      by (simp only: get_nd2v_concat_result simp_thms)
  qed
qed

lemma get_label_eq:
  "get_label self w =
     (fst (get_file (path_join (parent_dir self) ''label.pkl'') w), self,
      snd (get_file (path_join (parent_dir self) ''label.pkl'') w))"
  by (simp add: get_label_def split: prod.splits)

section \<open>The example directory, evaluated\<close>

lemma str_int_examples:
  "str_int 300 = ''300''" "str_int 13 = ''13''" "str_int 5 = ''5''" "str_int 25 = ''25''"
  "str_int 100 = ''100''"
  by code_simp+

lemmas example_defs = example_world_def example_fs_def example_loader_def path_join_def

lemma example_onehot_count:
  "fst (get_onehot example_loader (PStr ''title'') (PStr ''count'') (PBool False) example_world)
     = Inr (Sparse \<lparr>sp_rows = 2, sp_cols = 3, sp_entries = [(0, 1, 1), (1, 2, 4)]\<rparr>)"
  "fst (get_onehot example_loader (PStr ''text'') (PStr ''count'') (PBool False) example_world)
     = Inr (Sparse \<lparr>sp_rows = 2, sp_cols = 4, sp_entries = [(0, 0, 2), (1, 3, 1)]\<rparr>)"
  by (simp_all add: get_onehot_leaf get_file_result example_defs)

lemma example_onehot_tfidf:
  "fst (get_onehot example_loader (PStr ''title'') (PStr ''tfidf'') (PBool False) example_world)
     = Inr (Sparse \<lparr>sp_rows = 2, sp_cols = 3, sp_entries = [(0, 1, 7)]\<rparr>)"
  "fst (get_onehot example_loader (PStr ''text'') (PStr ''tfidf'') (PBool False) example_world)
     = Inr (Sparse \<lparr>sp_rows = 3, sp_cols = 4, sp_entries = [(2, 0, 9)]\<rparr>)"
  by (simp_all add: get_onehot_leaf get_file_result example_defs)

lemma example_d2v_5:
  "fst (get_d2v example_loader (PStr ''title'') (PInt 300) (PInt 13) (PInt 5) (PBool False)
          (PInt 100) example_world)
     = Inr (Dense \<lparr>nd_rows = 2, nd_cols = 2, nd_data = [[1, 2], [3, 4]]\<rparr>)"
  "fst (get_d2v example_loader (PStr ''text'') (PInt 300) (PInt 13) (PInt 5) (PBool False)
          (PInt 100) example_world)
     = Inr (Dense \<lparr>nd_rows = 2, nd_cols = 1, nd_data = [[5], [6]]\<rparr>)"
  by (simp_all add: get_d2v_leaf get_file_result str_int_examples example_defs)

lemma example_d2v_25:
  "fst (get_d2v example_loader (PStr ''title'') (PInt 300) (PInt 13) (PInt 25) (PBool False)
          (PInt 100) example_world)
     = Inr (Dense \<lparr>nd_rows = 2, nd_cols = 1, nd_data = [[1], [2]]\<rparr>)"
  "fst (get_d2v example_loader (PStr ''text'') (PInt 300) (PInt 13) (PInt 25) (PBool False)
          (PInt 100) example_world)
     = Inr (Dense \<lparr>nd_rows = 3, nd_cols = 1, nd_data = [[3], [4], [5]]\<rparr>)"
  by (simp_all add: get_d2v_leaf get_file_result str_int_examples example_defs)

lemma example_nd2v_none:
  "fst (get_nd2v example_loader (PStr ''title'') PNone example_world)
     = Inr (Dense \<lparr>nd_rows = 2, nd_cols = 1, nd_data = [[8], [9]]\<rparr>)"
  "fst (get_nd2v example_loader (PStr ''text'') PNone example_world)
     = Inr (Dense \<lparr>nd_rows = 2, nd_cols = 2, nd_data = [[1, 0], [0, 1]]\<rparr>)"
  by (simp_all add: get_nd2v_leaf get_file_result example_defs)

lemma example_nd2v_l2:
  "fst (get_nd2v example_loader (PStr ''title'') (PStr ''l2'') example_world)
     = Inr (Dense \<lparr>nd_rows = 1, nd_cols = 1, nd_data = [[8]]\<rparr>)"
  "fst (get_nd2v example_loader (PStr ''text'') (PStr ''l2'') example_world)
     = Inr (Dense \<lparr>nd_rows = 2, nd_cols = 1, nd_data = [[1], [0]]\<rparr>)"
  by (simp_all add: get_nd2v_leaf get_file_result example_defs)

text \<open>
  C1. For every scorer and normalize, the result of \<open>get_onehot\<close> on concat is the
  \<open>hstack\<close> of the results on title and on text, in this order (the first exception
  wins); likewise \<open>get_d2v\<close> and \<open>get_nd2v\<close> on concat are the \<open>concatenate\<close>
  along axis 1 of their title and text results under the same other parameters. So when
  both loads return matrices of equal row count, concat returns the matrix with that row
  count, the sum of the two column counts, and the text columns shifted right of the
  title columns.
\<close>

theorem concat_is_stack_of_title_and_text:
  "fst (get_onehot self (PStr ''concat'') s n w) =
     combine_loads hstack (fst (get_onehot self (PStr ''title'') s n w))
       (fst (get_onehot self (PStr ''text'') s n w))
   \<and> fst (get_d2v self (PStr ''concat'') v wn m d e w) =
     combine_loads np_concatenate (fst (get_d2v self (PStr ''title'') v wn m d e w))
       (fst (get_d2v self (PStr ''text'') v wn m d e w))
   \<and> fst (get_nd2v self (PStr ''concat'') nz w) =
     combine_loads np_concatenate (fst (get_nd2v self (PStr ''title'') nz w))
       (fst (get_nd2v self (PStr ''text'') nz w))
   \<and> (fst (get_onehot self (PStr ''title'') s n w) = Inr (Sparse A) \<and>
       fst (get_onehot self (PStr ''text'') s n w) = Inr (Sparse B) \<and> sp_rows A = sp_rows B \<longrightarrow>
      fst (get_onehot self (PStr ''concat'') s n w) =
        Inr (Sparse \<lparr>sp_rows = sp_rows A, sp_cols = sp_cols A + sp_cols B,
               sp_entries = sp_entries A @
                 map (\<lambda>(i, j, x). (i, sp_cols A + j, x)) (sp_entries B)\<rparr>))
   \<and> (fst (get_d2v self (PStr ''title'') v wn m d e w) = Inr (Dense X) \<and>
       fst (get_d2v self (PStr ''text'') v wn m d e w) = Inr (Dense Y) \<and> nd_rows X = nd_rows Y \<longrightarrow>
      fst (get_d2v self (PStr ''concat'') v wn m d e w) =
        Inr (Dense \<lparr>nd_rows = nd_rows X, nd_cols = nd_cols X + nd_cols Y,
               nd_data = map2 (@) (nd_data X) (nd_data Y)\<rparr>))
   \<and> (fst (get_nd2v self (PStr ''title'') nz w) = Inr (Dense X') \<and>
       fst (get_nd2v self (PStr ''text'') nz w) = Inr (Dense Y') \<and> nd_rows X' = nd_rows Y' \<longrightarrow>
      fst (get_nd2v self (PStr ''concat'') nz w) =
        Inr (Dense \<lparr>nd_rows = nd_rows X', nd_cols = nd_cols X' + nd_cols Y',
               nd_data = map2 (@) (nd_data X') (nd_data Y')\<rparr>))"
  by (simp add: get_onehot_concat_result get_d2v_concat_result get_nd2v_concat_result
        combine_loads_def hstack_def np_concatenate_def)

theorem concat_is_stack_of_title_and_text_witness:
  "fst (get_onehot example_loader (PStr ''concat'') (PStr ''count'') (PBool False) example_world)
     = Inr (Sparse \<lparr>sp_rows = 2, sp_cols = 7,
              sp_entries = [(0, 1, 1), (1, 2, 4), (0, 3, 2), (1, 6, 1)]\<rparr>)
   \<and> fst (get_d2v example_loader (PStr ''concat'') (PInt 300) (PInt 13) (PInt 5) (PBool False)
          (PInt 100) example_world)
     = Inr (Dense \<lparr>nd_rows = 2, nd_cols = 3, nd_data = [[1, 2, 5], [3, 4, 6]]\<rparr>)
   \<and> fst (get_nd2v example_loader (PStr ''concat'') PNone example_world)
     = Inr (Dense \<lparr>nd_rows = 2, nd_cols = 3, nd_data = [[8, 1, 0], [9, 0, 1]]\<rparr>)"
proof -
  note T = concat_is_stack_of_title_and_text
    [where self = example_loader and w = example_world and s = "PStr ''count''" and n = "PBool False"
       and v = "PInt 300" and wn = "PInt 13" and m = "PInt 5" and d = "PBool False"
       and e = "PInt 100" and nz = PNone
       and A = "\<lparr>sp_rows = 2, sp_cols = 3, sp_entries = [(0, 1, 1), (1, 2, 4)]\<rparr>"
       and B = "\<lparr>sp_rows = 2, sp_cols = 4, sp_entries = [(0, 0, 2), (1, 3, 1)]\<rparr>"
       and X = "\<lparr>nd_rows = 2, nd_cols = 2, nd_data = [[1, 2], [3, 4]]\<rparr>"
       and Y = "\<lparr>nd_rows = 2, nd_cols = 1, nd_data = [[5], [6]]\<rparr>"
       and X' = "\<lparr>nd_rows = 2, nd_cols = 1, nd_data = [[8], [9]]\<rparr>"
       and Y' = "\<lparr>nd_rows = 2, nd_cols = 2, nd_data = [[1, 0], [0, 1]]\<rparr>"]
  note onehot = T [THEN conjunct2, THEN conjunct2, THEN conjunct2, THEN conjunct1, THEN mp]
  note d2v = T [THEN conjunct2, THEN conjunct2, THEN conjunct2, THEN conjunct2, THEN conjunct1,
    THEN mp]
  note nd2v = T [THEN conjunct2, THEN conjunct2, THEN conjunct2, THEN conjunct2, THEN conjunct2,
    THEN mp]
  have 1: "fst (get_onehot example_loader (PStr ''concat'') (PStr ''count'') (PBool False)
        example_world)
     = Inr (Sparse \<lparr>sp_rows = 2, sp_cols = 7,
              sp_entries = [(0, 1, 1), (1, 2, 4), (0, 3, 2), (1, 6, 1)]\<rparr>)"
    using onehot by (simp add: example_onehot_count)
  have 2: "fst (get_d2v example_loader (PStr ''concat'') (PInt 300) (PInt 13) (PInt 5)
        (PBool False) (PInt 100) example_world)
     = Inr (Dense \<lparr>nd_rows = 2, nd_cols = 3, nd_data = [[1, 2, 5], [3, 4, 6]]\<rparr>)"
    using d2v by (simp add: example_d2v_5)
  have 3: "fst (get_nd2v example_loader (PStr ''concat'') PNone example_world)
     = Inr (Dense \<lparr>nd_rows = 2, nd_cols = 3, nd_data = [[8, 1, 0], [9, 0, 1]]\<rparr>)"
    using nd2v by (simp add: example_nd2v_none)
  show ?thesis
    using 1 2 3 by (intro conjI)
qed

text \<open>
  C2. The one-hot key is a function of its three parameters alone and never fails: for
  every corpus, scorer and boolean normalize it is the corpus, \<open>-onehot(scorer=\<close>, the
  scorer, \<open>, normalized\<close> exactly when normalize is true, and \<open>).pkl\<close>. The two keys
  the specification quotes are instances.
\<close>

theorem onehot_key_format:
  "get_onehot_filename c s (PBool b) =
     Inr (py_str c @ ''-onehot(scorer='' @ py_str s @
          (if b then '', normalized'' else '''') @ '').pkl'')
   \<and> get_onehot_filename (PStr ''title'') (PStr ''count'') (PBool False) =
       Inr ''title-onehot(scorer=count).pkl''
   \<and> get_onehot_filename (PStr ''title'') (PStr ''tfidf'') (PBool True) =
       Inr ''title-onehot(scorer=tfidf, normalized).pkl''"
  by (simp add: get_onehot_filename_eq)

theorem onehot_key_format_witness:
  "get_onehot_filename (PStr ''text'') (PStr ''tfidf'') (PBool True) =
     Inr ''text-onehot(scorer=tfidf, normalized).pkl''"
  using onehot_key_format [of "PStr ''text''" "PStr ''tfidf''" True] by simp

text \<open>
  C3. The doc2vec key never fails and is the corpus, \<open>-d2v(vecsize=\<close>, vec_size,
  \<open>, winsize=\<close>, win_size, \<open>, mincount=\<close>, min_count, the mode segment (\<open>dm\<close>
  when dm is true, \<open>dbow\<close> when it is false), \<open>, epochs=\<close>, epochs and \<open>).pkl\<close>;
  the key the specification quotes is an instance.
\<close>

theorem d2v_key_format:
  "get_d2v_filename c v wn m (PBool b) e =
     Inr (py_str c @ ''-d2v(vecsize='' @ py_str v @ '', winsize='' @ py_str wn @
          '', mincount='' @ py_str m @ '', '' @ (if b then ''dm'' else ''dbow'') @
          '', epochs='' @ py_str e @ '').pkl'')
   \<and> get_d2v_filename (PStr ''text'') (PInt 300) (PInt 13) (PInt 5) (PBool False) (PInt 100) =
       Inr ''text-d2v(vecsize=300, winsize=13, mincount=5, dbow, epochs=100).pkl''"
proof
  show "get_d2v_filename c v wn m (PBool b) e =
     Inr (py_str c @ ''-d2v(vecsize='' @ py_str v @ '', winsize='' @ py_str wn @
          '', mincount='' @ py_str m @ '', '' @ (if b then ''dm'' else ''dbow'') @
          '', epochs='' @ py_str e @ '').pkl'')"
    by (simp add: get_d2v_filename_eq)
  show "get_d2v_filename (PStr ''text'') (PInt 300) (PInt 13) (PInt 5) (PBool False) (PInt 100) =
       Inr ''text-d2v(vecsize=300, winsize=13, mincount=5, dbow, epochs=100).pkl''"
    by code_simp
qed

theorem d2v_key_format_witness:
  "get_d2v_filename (PStr ''title'') (PInt 300) (PInt 13) (PInt 25) (PBool True) (PInt 100) =
     Inr ''title-d2v(vecsize=300, winsize=13, mincount=25, dm, epochs=100).pkl''"
proof -
  have "str_int 300 = ''300''" "str_int 13 = ''13''" "str_int 25 = ''25''" "str_int 100 = ''100''"
    by code_simp+
  then show ?thesis
    using d2v_key_format [of "PStr ''title''" "PInt 300" "PInt 13" "PInt 25" True "PInt 100"]
    by simp
qed

text \<open>
  C4. The naive doc2vec key never fails and is the corpus, \<open>-nd2v(normalizer=\<close>, the
  normalizer's text and \<open>).pkl\<close>; the text of an unset normalizer (\<open>None\<close>) is the
  word None, so the key of title with no normalizer is the one the specification quotes.
\<close>

theorem nd2v_key_format:
  "get_nd2v_filename c n =
     Inr (py_str c @ ''-nd2v(normalizer='' @ py_str n @ '').pkl'')
   \<and> py_str PNone = ''None''
   \<and> get_nd2v_filename (PStr ''title'') PNone = Inr ''title-nd2v(normalizer=None).pkl''"
  by (simp add: get_nd2v_filename_eq)

theorem nd2v_key_format_witness:
  "get_nd2v_filename (PStr ''text'') (PStr ''l2'') = Inr ''text-nd2v(normalizer=l2).pkl''"
  using nd2v_key_format [of "PStr ''text''" "PStr ''l2''"] by simp

text \<open>
  C5. A corpus outside title, text and concat makes each of the three load operations
  raise its AssertionError and return the world as it was: nothing was printed and no
  path was opened. The same holds for \<open>get_onehot\<close> with a scorer outside count and
  tfidf or a normalize that is not a bool (whatever the corpus), and for \<open>get_nd2v\<close>
  with a normalizer outside None, l2 and mean.
\<close>

theorem validation_precedes_io:
  "(c \<notin> set [PStr ''title'', PStr ''text'', PStr ''concat''] \<longrightarrow>
      (\<exists>msg. get_onehot self c s n w = (Inl (AssertionError msg), self, w)) \<and>
      (\<exists>msg. get_d2v self c v wn m d e w = (Inl (AssertionError msg), self, w)) \<and>
      (\<exists>msg. get_nd2v self c nz w = (Inl (AssertionError msg), self, w)))
   \<and> (s \<notin> set [PStr ''count'', PStr ''tfidf''] \<longrightarrow>
      (\<exists>msg. get_onehot self c s n w = (Inl (AssertionError msg), self, w)))
   \<and> (\<not> is_bool n \<longrightarrow>
      (\<exists>msg. get_onehot self c s n w = (Inl (AssertionError msg), self, w)))
   \<and> (nz \<notin> {PNone, PStr ''l2'', PStr ''mean''} \<longrightarrow>
      (\<exists>msg. get_nd2v self c nz w = (Inl (AssertionError msg), self, w)))"
proof -
  have bad: "\<exists>msg. get_onehot self c s n w = (Inl (AssertionError msg), self, w)"
    if "s \<notin> set [PStr ''count'', PStr ''tfidf''] \<or> \<not> is_bool n"
    using corpus_cases [of c]
  proof (elim disjE)
    assume "c \<notin> set [PStr ''title'', PStr ''text'', PStr ''concat'']"
    then show ?thesis by (simp add: get_onehot_bad_corpus)
  next
    assume "c = PStr ''title''"
    then show ?thesis using that by (auto simp: get_onehot_leaf)
  next
    assume "c = PStr ''text''"
    then show ?thesis using that by (auto simp: get_onehot_leaf)
  next
    assume "c = PStr ''concat''"
    then show ?thesis using that by (auto simp: get_onehot_concat)
  qed
  have badn: "\<exists>msg. get_nd2v self c nz w = (Inl (AssertionError msg), self, w)"
    if "nz \<notin> {PNone, PStr ''l2'', PStr ''mean''}"
    using corpus_cases [of c]
  proof (elim disjE)
    assume "c \<notin> set [PStr ''title'', PStr ''text'', PStr ''concat'']"
    then show ?thesis by (simp add: get_nd2v_bad_corpus)
  next
    assume "c = PStr ''title''"
    then show ?thesis using that by (auto simp: get_nd2v_leaf)
  next
    assume "c = PStr ''text''"
    then show ?thesis using that by (auto simp: get_nd2v_leaf)
  next
    assume "c = PStr ''concat''"
    then show ?thesis using that by (auto simp: get_nd2v_concat)
  qed
  show ?thesis
    using bad badn
    by (simp add: get_onehot_bad_corpus get_d2v_bad_corpus get_nd2v_bad_corpus)
qed

theorem validation_precedes_io_witness:
  "get_onehot example_loader (PStr ''body'') (PStr ''count'') (PBool False) example_world
     = (Inl (AssertionError
         (''`corpus` must be either 'title', 'text', or 'concat'' @ [CHR 0x27])),
        example_loader, example_world)
   \<and> fst (get_d2v example_loader (PStr ''body'') (PInt 300) (PInt 13) (PInt 5) (PBool False)
          (PInt 100) example_world)
     = Inl (AssertionError
         (''`corpus` must be either 'title', 'text', or 'concat'' @ [CHR 0x27]))
   \<and> io_log (snd (snd (get_nd2v example_loader (PStr ''body'') PNone example_world))) = []
   \<and> snd (snd (get_onehot example_loader (PStr ''title'') (PStr ''bm25'') (PBool False)
          example_world)) = example_world
   \<and> snd (snd (get_onehot example_loader (PStr ''concat'') (PStr ''count'') (PInt 1)
          example_world)) = example_world
   \<and> snd (snd (get_nd2v example_loader (PStr ''text'') (PStr ''max'') example_world))
     = example_world"
proof -
  note v = validation_precedes_io [where self = example_loader and w = example_world]
  have 1: "\<exists>msg. get_onehot example_loader (PStr ''body'') (PStr ''count'') (PBool False)
      example_world = (Inl (AssertionError msg), example_loader, example_world)"
    using v [of "PStr ''body''" "PStr ''count''" "PBool False"] by simp
  have 2: "\<exists>msg. get_d2v example_loader (PStr ''body'') (PInt 300) (PInt 13) (PInt 5)
      (PBool False) (PInt 100) example_world
        = (Inl (AssertionError msg), example_loader, example_world)"
    using v [of "PStr ''body''"] by simp
  have 3: "\<exists>msg. get_nd2v example_loader (PStr ''body'') PNone example_world
        = (Inl (AssertionError msg), example_loader, example_world)"
    using v [of "PStr ''body''"] by simp
  have 4: "\<exists>msg. get_onehot example_loader (PStr ''title'') (PStr ''bm25'') (PBool False)
      example_world = (Inl (AssertionError msg), example_loader, example_world)"
    using v [of "PStr ''title''" "PStr ''bm25''" "PBool False"] by simp
  have 5: "\<exists>msg. get_onehot example_loader (PStr ''concat'') (PStr ''count'') (PInt 1)
      example_world = (Inl (AssertionError msg), example_loader, example_world)"
    using v [of "PStr ''concat''" "PStr ''count''" "PInt 1"] by simp
  have 6: "\<exists>msg. get_nd2v example_loader (PStr ''text'') (PStr ''max'') example_world
        = (Inl (AssertionError msg), example_loader, example_world)"
    using v [where c = "PStr ''text''" and nz = "PStr ''max''"] by simp
  show ?thesis
    using 1 2 3 4 5 6
    by (auto simp: get_onehot_bad_corpus get_d2v_bad_corpus example_world_def)
qed

text \<open>
  C6. When the title and the text load both return a matrix and the two row counts
  differ, the concat load returns no matrix: the stacking primitive raises ValueError,
  for the sparse one-hot matrices under \<open>hstack\<close> and for the dense doc2vec and naive
  doc2vec arrays under \<open>concatenate\<close>.
\<close>

theorem concat_row_mismatch_fails:
  "(fst (get_onehot self (PStr ''title'') s n w) = Inr (Sparse A) \<and>
    fst (get_onehot self (PStr ''text'') s n w) = Inr (Sparse B) \<and> sp_rows A \<noteq> sp_rows B \<longrightarrow>
      fst (get_onehot self (PStr ''concat'') s n w) = Inl ValueError)
   \<and> (fst (get_d2v self (PStr ''title'') v wn m d e w) = Inr (Dense X) \<and>
       fst (get_d2v self (PStr ''text'') v wn m d e w) = Inr (Dense Y) \<and> nd_rows X \<noteq> nd_rows Y \<longrightarrow>
      fst (get_d2v self (PStr ''concat'') v wn m d e w) = Inl ValueError)
   \<and> (fst (get_nd2v self (PStr ''title'') nz w) = Inr (Dense X') \<and>
       fst (get_nd2v self (PStr ''text'') nz w) = Inr (Dense Y') \<and> nd_rows X' \<noteq> nd_rows Y' \<longrightarrow>
      fst (get_nd2v self (PStr ''concat'') nz w) = Inl ValueError)"
  by (simp add: get_onehot_concat_result get_d2v_concat_result get_nd2v_concat_result
        combine_loads_def hstack_def np_concatenate_def)

theorem concat_row_mismatch_fails_witness:
  "fst (get_onehot example_loader (PStr ''concat'') (PStr ''tfidf'') (PBool False) example_world)
     = Inl ValueError
   \<and> fst (get_d2v example_loader (PStr ''concat'') (PInt 300) (PInt 13) (PInt 25) (PBool False)
          (PInt 100) example_world) = Inl ValueError
   \<and> fst (get_nd2v example_loader (PStr ''concat'') (PStr ''l2'') example_world) = Inl ValueError"
  using concat_row_mismatch_fails
    [where self = example_loader and w = example_world and s = "PStr ''tfidf''" and n = "PBool False"
       and v = "PInt 300" and wn = "PInt 13" and m = "PInt 25" and d = "PBool False"
       and e = "PInt 100" and nz = "PStr ''l2''"
       and A = "\<lparr>sp_rows = 2, sp_cols = 3, sp_entries = [(0, 1, 7)]\<rparr>"
       and B = "\<lparr>sp_rows = 3, sp_cols = 4, sp_entries = [(2, 0, 9)]\<rparr>"
       and X = "\<lparr>nd_rows = 2, nd_cols = 1, nd_data = [[1], [2]]\<rparr>"
       and Y = "\<lparr>nd_rows = 3, nd_cols = 1, nd_data = [[3], [4], [5]]\<rparr>"
       and X' = "\<lparr>nd_rows = 1, nd_cols = 1, nd_data = [[8]]\<rparr>"
       and Y' = "\<lparr>nd_rows = 2, nd_cols = 1, nd_data = [[1], [0]]\<rparr>"]
  by (simp add: example_onehot_tfidf example_d2v_25 example_nd2v_l2)

lemma get_file_missing_fst:
  "open_not_found w p \<Longrightarrow> fst (get_file p w) = Inl (FileNotFoundError p)"
  by (simp add: open_not_found_def get_file_missing)

text \<open>
  C7, as the code has it. A path on which \<open>open\<close> raises FileNotFoundError (no NUL
  byte, no entry in the file system) makes \<open>get_file\<close> open it once, print its three
  diagnostic lines and raise FileNotFoundError with exactly that path as its message.
  Every load operation passes the error on with the path it resolved (the base directory
  joined with the filename key), for title and text directly, for the labels, and for
  concat whether the title file or, after a title that loaded, the text file is the
  missing one: the result is the error, never an artifact. A path that \<open>open\<close> rejects
  for another reason does not exist either, but its exception is not the one caught: an
  embedded NUL byte leaves \<open>get_file\<close> as ValueError, a refusal of the file system (a
  component that is not a directory, a name too long) as that OSError, with nothing
  printed.
\<close>

theorem missing_file_not_found:
  "(open_not_found w p \<longrightarrow>
      get_file p w =
        (Inl (FileNotFoundError p),
         w\<lparr>io_log := io_log w @ [Open p],
           stdout := stdout w @
             [Line (''unable to load '' @ p @ '', see stack trace below''),
              Line (''double check that you have the file saved '' @ p),
              OSErrorText p]\<rparr>))
   \<and> ((c = ''title'' \<or> c = ''text'') \<and> s \<in> set [PStr ''count'', PStr ''tfidf''] \<and> is_bool n \<and>
        get_onehot_filename (PStr c) s n = Inr f \<and> open_not_found w (path_join (parent_dir self) f) \<longrightarrow>
      get_onehot self (PStr c) s n w =
        (Inl (FileNotFoundError (path_join (parent_dir self) f)), self,
         snd (get_file (path_join (parent_dir self) f) w)))
   \<and> ((c = ''title'' \<or> c = ''text'') \<and>
        get_d2v_filename (PStr c) v wn m d e = Inr f \<and> open_not_found w (path_join (parent_dir self) f) \<longrightarrow>
      get_d2v self (PStr c) v wn m d e w =
        (Inl (FileNotFoundError (path_join (parent_dir self) f)), self,
         snd (get_file (path_join (parent_dir self) f) w)))
   \<and> ((c = ''title'' \<or> c = ''text'') \<and> nz \<in> {PNone, PStr ''l2'', PStr ''mean''} \<and>
        get_nd2v_filename (PStr c) nz = Inr f \<and> open_not_found w (path_join (parent_dir self) f) \<longrightarrow>
      get_nd2v self (PStr c) nz w =
        (Inl (FileNotFoundError (path_join (parent_dir self) f)), self,
         snd (get_file (path_join (parent_dir self) f) w)))
   \<and> (open_not_found w (path_join (parent_dir self) ''label.pkl'') \<longrightarrow>
      get_label self w =
        (Inl (FileNotFoundError (path_join (parent_dir self) ''label.pkl'')), self,
         snd (get_file (path_join (parent_dir self) ''label.pkl'') w)))
   \<and> (s \<in> set [PStr ''count'', PStr ''tfidf''] \<and> is_bool n \<and>
        get_onehot_filename (PStr ''text'') s n = Inr f \<and>
        fst (get_onehot self (PStr ''title'') s n w) = Inr a \<and>
        open_not_found w (path_join (parent_dir self) f) \<longrightarrow>
      fst (get_onehot self (PStr ''concat'') s n w) =
        Inl (FileNotFoundError (path_join (parent_dir self) f)))
   \<and> (get_d2v_filename (PStr ''text'') v wn m d e = Inr f \<and>
        fst (get_d2v self (PStr ''title'') v wn m d e w) = Inr a \<and>
        open_not_found w (path_join (parent_dir self) f) \<longrightarrow>
      fst (get_d2v self (PStr ''concat'') v wn m d e w) =
        Inl (FileNotFoundError (path_join (parent_dir self) f)))
   \<and> (nz \<in> {PNone, PStr ''l2'', PStr ''mean''} \<and>
        get_nd2v_filename (PStr ''text'') nz = Inr f \<and>
        fst (get_nd2v self (PStr ''title'') nz w) = Inr a \<and>
        open_not_found w (path_join (parent_dir self) f) \<longrightarrow>
      fst (get_nd2v self (PStr ''concat'') nz w) =
        Inl (FileNotFoundError (path_join (parent_dir self) f)))
   \<and> (s \<in> set [PStr ''count'', PStr ''tfidf''] \<and> is_bool n \<and>
        get_onehot_filename (PStr ''title'') s n = Inr f \<and>
        open_not_found w (path_join (parent_dir self) f) \<longrightarrow>
      fst (get_onehot self (PStr ''concat'') s n w) =
        Inl (FileNotFoundError (path_join (parent_dir self) f)))
   \<and> (get_d2v_filename (PStr ''title'') v wn m d e = Inr f \<and>
        open_not_found w (path_join (parent_dir self) f) \<longrightarrow>
      fst (get_d2v self (PStr ''concat'') v wn m d e w) =
        Inl (FileNotFoundError (path_join (parent_dir self) f)))
   \<and> (nz \<in> {PNone, PStr ''l2'', PStr ''mean''} \<and>
        get_nd2v_filename (PStr ''title'') nz = Inr f \<and>
        open_not_found w (path_join (parent_dir self) f) \<longrightarrow>
      fst (get_nd2v self (PStr ''concat'') nz w) =
        Inl (FileNotFoundError (path_join (parent_dir self) f)))
   \<and> (CHR 0x00 \<in> set p \<longrightarrow>
      get_file p w = (Inl ValueError, w\<lparr>io_log := io_log w @ [Open p]\<rparr>))
   \<and> (CHR 0x00 \<notin> set p \<and> fs w p = Some (Refused errno) \<longrightarrow>
      get_file p w = (Inl (OSError errno p), w\<lparr>io_log := io_log w @ [Open p]\<rparr>))"
proof (intro conjI impI)
  assume "open_not_found w p"
  then show "get_file p w =
        (Inl (FileNotFoundError p),
         w\<lparr>io_log := io_log w @ [Open p],
           stdout := stdout w @
             [Line (''unable to load '' @ p @ '', see stack trace below''),
              Line (''double check that you have the file saved '' @ p),
              OSErrorText p]\<rparr>)"
    by (simp add: open_not_found_def get_file_missing)
next
  assume "(c = ''title'' \<or> c = ''text'') \<and> s \<in> set [PStr ''count'', PStr ''tfidf''] \<and> is_bool n \<and>
        get_onehot_filename (PStr c) s n = Inr f \<and> open_not_found w (path_join (parent_dir self) f)"
  then show "get_onehot self (PStr c) s n w =
        (Inl (FileNotFoundError (path_join (parent_dir self) f)), self,
         snd (get_file (path_join (parent_dir self) f) w))"
    using get_file_missing_fst [of w "path_join (parent_dir self) f"]
    by (auto simp: get_onehot_leaf get_onehot_filename_eq)
next
  assume "(c = ''title'' \<or> c = ''text'') \<and>
        get_d2v_filename (PStr c) v wn m d e = Inr f \<and> open_not_found w (path_join (parent_dir self) f)"
  then show "get_d2v self (PStr c) v wn m d e w =
        (Inl (FileNotFoundError (path_join (parent_dir self) f)), self,
         snd (get_file (path_join (parent_dir self) f) w))"
    using get_file_missing_fst [of w "path_join (parent_dir self) f"]
    by (auto simp: get_d2v_leaf get_d2v_filename_eq)
next
  assume "(c = ''title'' \<or> c = ''text'') \<and> nz \<in> {PNone, PStr ''l2'', PStr ''mean''} \<and>
        get_nd2v_filename (PStr c) nz = Inr f \<and> open_not_found w (path_join (parent_dir self) f)"
  then show "get_nd2v self (PStr c) nz w =
        (Inl (FileNotFoundError (path_join (parent_dir self) f)), self,
         snd (get_file (path_join (parent_dir self) f) w))"
    using get_file_missing_fst [of w "path_join (parent_dir self) f"]
    by (auto simp: get_nd2v_leaf get_nd2v_filename_eq)
next
  assume "open_not_found w (path_join (parent_dir self) ''label.pkl'')"
  then show "get_label self w =
        (Inl (FileNotFoundError (path_join (parent_dir self) ''label.pkl'')), self,
         snd (get_file (path_join (parent_dir self) ''label.pkl'') w))"
    by (simp add: get_label_eq get_file_missing_fst)
next
  assume "s \<in> set [PStr ''count'', PStr ''tfidf''] \<and> is_bool n \<and>
        get_onehot_filename (PStr ''text'') s n = Inr f \<and>
        fst (get_onehot self (PStr ''title'') s n w) = Inr a \<and>
        open_not_found w (path_join (parent_dir self) f)"
  then show "fst (get_onehot self (PStr ''concat'') s n w) =
        Inl (FileNotFoundError (path_join (parent_dir self) f))"
    using get_file_missing_fst [of w "path_join (parent_dir self) f"]
      get_onehot_leaf [of "''text''" self s n w]
    by (auto simp: get_onehot_concat_result combine_loads_def get_onehot_filename_eq)
next
  assume "get_d2v_filename (PStr ''text'') v wn m d e = Inr f \<and>
        fst (get_d2v self (PStr ''title'') v wn m d e w) = Inr a \<and>
        open_not_found w (path_join (parent_dir self) f)"
  then show "fst (get_d2v self (PStr ''concat'') v wn m d e w) =
        Inl (FileNotFoundError (path_join (parent_dir self) f))"
    using get_file_missing_fst [of w "path_join (parent_dir self) f"]
      get_d2v_leaf [of "''text''" self v wn m d e w]
    by (auto simp: get_d2v_concat_result combine_loads_def get_d2v_filename_eq)
next
  assume "nz \<in> {PNone, PStr ''l2'', PStr ''mean''} \<and>
        get_nd2v_filename (PStr ''text'') nz = Inr f \<and>
        fst (get_nd2v self (PStr ''title'') nz w) = Inr a \<and>
        open_not_found w (path_join (parent_dir self) f)"
  then show "fst (get_nd2v self (PStr ''concat'') nz w) =
        Inl (FileNotFoundError (path_join (parent_dir self) f))"
    using get_file_missing_fst [of w "path_join (parent_dir self) f"]
      get_nd2v_leaf [of "''text''" self nz w]
    by (auto simp: get_nd2v_concat_result combine_loads_def get_nd2v_filename_eq)
next
  assume "s \<in> set [PStr ''count'', PStr ''tfidf''] \<and> is_bool n \<and>
        get_onehot_filename (PStr ''title'') s n = Inr f \<and>
        open_not_found w (path_join (parent_dir self) f)"
  then show "fst (get_onehot self (PStr ''concat'') s n w) =
        Inl (FileNotFoundError (path_join (parent_dir self) f))"
    using get_file_missing_fst [of w "path_join (parent_dir self) f"]
      get_onehot_leaf [of "''title''" self s n w]
    by (auto simp: get_onehot_concat_result combine_loads_def get_onehot_filename_eq)
next
  assume "get_d2v_filename (PStr ''title'') v wn m d e = Inr f \<and>
        open_not_found w (path_join (parent_dir self) f)"
  then show "fst (get_d2v self (PStr ''concat'') v wn m d e w) =
        Inl (FileNotFoundError (path_join (parent_dir self) f))"
    using get_file_missing_fst [of w "path_join (parent_dir self) f"]
      get_d2v_leaf [of "''title''" self v wn m d e w]
    by (auto simp: get_d2v_concat_result combine_loads_def get_d2v_filename_eq)
next
  assume "nz \<in> {PNone, PStr ''l2'', PStr ''mean''} \<and>
        get_nd2v_filename (PStr ''title'') nz = Inr f \<and>
        open_not_found w (path_join (parent_dir self) f)"
  then show "fst (get_nd2v self (PStr ''concat'') nz w) =
        Inl (FileNotFoundError (path_join (parent_dir self) f))"
    using get_file_missing_fst [of w "path_join (parent_dir self) f"]
      get_nd2v_leaf [of "''title''" self nz w]
    by (auto simp: get_nd2v_concat_result combine_loads_def get_nd2v_filename_eq)
next
  assume "CHR 0x00 \<in> set p"
  then show "get_file p w = (Inl ValueError, w\<lparr>io_log := io_log w @ [Open p]\<rparr>)"
    by (rule get_file_nul)
next
  assume "CHR 0x00 \<notin> set p \<and> fs w p = Some (Refused errno)"
  then show "get_file p w = (Inl (OSError errno p), w\<lparr>io_log := io_log w @ [Open p]\<rparr>)"
    by (simp add: get_file_refused)
qed



theorem missing_file_not_found_witness:
  "get_label example_loader example_world =
     (Inl (FileNotFoundError ''embeddings/label.pkl''), example_loader,
      \<lparr>fs = example_fs,
        stdout = [Line ''unable to load embeddings/label.pkl, see stack trace below'',
                  Line ''double check that you have the file saved embeddings/label.pkl'',
                  OSErrorText ''embeddings/label.pkl''],
        io_log = [Open ''embeddings/label.pkl'']\<rparr>)
   \<and> fst (get_onehot example_loader (PStr ''title'') (PStr ''count'') (PBool True) example_world)
       = Inl (FileNotFoundError ''embeddings/title-onehot(scorer=count, normalized).pkl'')
   \<and> fst (get_nd2v example_loader (PStr ''concat'') (PStr ''mean'') example_world)
       = Inl (FileNotFoundError ''embeddings/title-nd2v(normalizer=mean).pkl'')
   \<and> fst (get_d2v example_loader (PStr ''concat'') (PInt 300) (PInt 13) (PInt 5) (PBool True)
          (PInt 100) example_world)
       = Inl (FileNotFoundError
           ''embeddings/text-d2v(vecsize=300, winsize=13, mincount=5, dm, epochs=100).pkl'')"
proof -
  have nums: "str_int 300 = ''300''" "str_int 13 = ''13''" "str_int 5 = ''5''"
    "str_int 100 = ''100''"
    by code_simp+
  have label: "open_not_found example_world (path_join (parent_dir example_loader) ''label.pkl'')"
    by (simp add: open_not_found_def
          example_world_def example_fs_def example_loader_def path_join_def)
  have 1: "get_label example_loader example_world =
     (Inl (FileNotFoundError (path_join (parent_dir example_loader) ''label.pkl'')),
      example_loader,
      snd (get_file (path_join (parent_dir example_loader) ''label.pkl'') example_world))"
    using missing_file_not_found [where w = example_world and self = example_loader] label
    by blast
  have g: "get_file (path_join (parent_dir example_loader) ''label.pkl'') example_world =
     (Inl (FileNotFoundError (path_join (parent_dir example_loader) ''label.pkl'')),
      example_world\<lparr>io_log := io_log example_world @
          [Open (path_join (parent_dir example_loader) ''label.pkl'')],
        stdout := stdout example_world @
          [Line (''unable to load '' @ path_join (parent_dir example_loader) ''label.pkl'' @
                 '', see stack trace below''),
           Line (''double check that you have the file saved '' @
                 path_join (parent_dir example_loader) ''label.pkl''),
           OSErrorText (path_join (parent_dir example_loader) ''label.pkl'')]\<rparr>)"
    using missing_file_not_found
      [where w = example_world and p = "path_join (parent_dir example_loader) ''label.pkl''"]
      label
    by blast
  have 2: "fst (get_onehot example_loader (PStr ''title'') (PStr ''count'') (PBool True)
        example_world)
       = Inl (FileNotFoundError ''embeddings/title-onehot(scorer=count, normalized).pkl'')"
    using missing_file_not_found
      [where w = example_world and self = example_loader and c = "''title''"
         and s = "PStr ''count''" and n = "PBool True"
         and f = "''title-onehot(scorer=count, normalized).pkl''"]
    by (simp add: get_onehot_filename_eq open_not_found_def
          example_world_def example_fs_def example_loader_def path_join_def)
  have 3: "fst (get_nd2v example_loader (PStr ''concat'') (PStr ''mean'') example_world)
       = Inl (FileNotFoundError ''embeddings/title-nd2v(normalizer=mean).pkl'')"
    using missing_file_not_found
      [where w = example_world and self = example_loader and nz = "PStr ''mean''"
         and f = "''title-nd2v(normalizer=mean).pkl''"]
    by (simp add: get_nd2v_filename_eq open_not_found_def
          example_world_def example_fs_def example_loader_def path_join_def)
  have title: "fst (get_d2v example_loader (PStr ''title'') (PInt 300) (PInt 13) (PInt 5)
        (PBool True) (PInt 100) example_world)
      = Inr (Dense \<lparr>nd_rows = 2, nd_cols = 2, nd_data = [[0, 1], [1, 0]]\<rparr>)"
    by (simp add: get_d2v_leaf get_file_result nums example_world_def example_fs_def
          example_loader_def path_join_def)
  have 4: "fst (get_d2v example_loader (PStr ''concat'') (PInt 300) (PInt 13) (PInt 5)
        (PBool True) (PInt 100) example_world)
       = Inl (FileNotFoundError
           ''embeddings/text-d2v(vecsize=300, winsize=13, mincount=5, dm, epochs=100).pkl'')"
    using missing_file_not_found
      [where w = example_world and self = example_loader and v = "PInt 300" and wn = "PInt 13"
         and m = "PInt 5" and d = "PBool True" and e = "PInt 100"
         and a = "Dense \<lparr>nd_rows = 2, nd_cols = 2, nd_data = [[0, 1], [1, 0]]\<rparr>"
         and f = "''text-d2v(vecsize=300, winsize=13, mincount=5, dm, epochs=100).pkl''"]
      title
    by (simp add: get_d2v_filename_eq nums open_not_found_def
          example_world_def example_fs_def example_loader_def path_join_def)
  show ?thesis
    using 1 g 2 3 4
    by (simp add: example_world_def example_loader_def path_join_def)
qed

text \<open>
  C7 as the specification states it, for every path that does not exist, fails: a
  vec_size holding a NUL byte resolves to a path that names no file, and the title load
  raises ValueError, not FileNotFoundError, and prints no hint.
\<close>

theorem missing_file_not_found_counterexample:
  "fs example_world
      (''embeddings/title-d2v(vecsize='' @ CHR 0x00 #
       '', winsize=13, mincount=5, dbow, epochs=100).pkl'') = None
   \<and> get_d2v example_loader (PStr ''title'') (PStr [CHR 0x00]) (PInt 13) (PInt 5)
       (PBool False) (PInt 100) example_world
     = (Inl ValueError, example_loader,
        \<lparr>fs = example_fs, stdout = [],
          io_log = [Open (''embeddings/title-d2v(vecsize='' @ CHR 0x00 #
                          '', winsize=13, mincount=5, dbow, epochs=100).pkl'')]\<rparr>)"
  by (simp add: get_d2v_leaf get_file_nul str_int_examples example_defs)

text \<open>
  C8. Construction on a path that is not an existing directory (absent, or a file)
  raises the assertion's error, whose message is the path followed by
  \<open>is not a valid directory\<close>; on an existing directory it returns an object holding
  exactly that path. Either way the world changes by the one \<open>stat\<close> of the path in
  the I/O log only: nothing is printed, no file is opened, the file system is as it was.
\<close>

theorem construct_checks_directory:
  "(fs w d \<noteq> Some Directory \<longrightarrow>
      fst (EmbeddingLoader_init d w) = Inl (AssertionError (d @ '' is not a valid directory'')))
   \<and> (fs w d = Some Directory \<longrightarrow>
      fst (EmbeddingLoader_init d w) = Inr \<lparr>parent_dir = d\<rparr>)
   \<and> snd (EmbeddingLoader_init d w) = w\<lparr>io_log := io_log w @ [Stat d]\<rparr>"
  by (simp add: EmbeddingLoader_init_def Let_def)

theorem construct_checks_directory_witness:
  "fst (EmbeddingLoader_init ''embeddings'' example_world) = Inr example_loader
   \<and> fst (EmbeddingLoader_init ''nowhere'' example_world)
       = Inl (AssertionError ''nowhere is not a valid directory'')
   \<and> fst (EmbeddingLoader_init ''embeddings/title-nd2v(normalizer=l2).pkl'' example_world)
       = Inl (AssertionError
           ''embeddings/title-nd2v(normalizer=l2).pkl is not a valid directory'')
   \<and> stdout (snd (EmbeddingLoader_init ''embeddings'' example_world)) = []
   \<and> fs (snd (EmbeddingLoader_init ''embeddings'' example_world)) = example_fs"
  using construct_checks_directory [of example_world "''embeddings''"]
    construct_checks_directory [of example_world "''nowhere''"]
    construct_checks_directory [of example_world "''embeddings/title-nd2v(normalizer=l2).pkl''"]
  by (simp add: example_world_def example_fs_def example_loader_def)

lemma get_label_self: "fst (snd (get_label self w)) = self"
  by (simp add: get_label_eq)

lemma get_label_fs: "fs (snd (snd (get_label self w))) = fs w"
  by (simp add: get_label_eq get_file_fs)

lemma get_label_result_fs: "fs w' = fs w \<Longrightarrow> fst (get_label self w') = fst (get_label self w)"
proof -
  assume eq: "fs w' = fs w"
  have "fst (get_file p w') = fst (get_file p w)" for p
    by (simp only: get_file_result eq)
  then show ?thesis
    by (simp add: get_label_eq)
qed

text \<open>
  C9. The result of every load operation is a function of the object, the parameters and
  the file system alone: two worlds with the same files give the same result, whatever
  was printed or opened before. In particular a second call, on the object and the world
  the first call left, returns what the first returned. No operation changes the object
  (its base directory) or the files.
\<close>

theorem loads_are_repeatable:
  "(fs w' = fs w \<longrightarrow>
      fst (get_onehot self c s n w') = fst (get_onehot self c s n w) \<and>
      fst (get_d2v self c v wn m d e w') = fst (get_d2v self c v wn m d e w) \<and>
      fst (get_nd2v self c nz w') = fst (get_nd2v self c nz w) \<and>
      fst (get_label self w') = fst (get_label self w))
   \<and> fst (get_onehot (fst (snd (get_onehot self c s n w))) c s n
           (snd (snd (get_onehot self c s n w))))
       = fst (get_onehot self c s n w)
   \<and> fst (get_d2v (fst (snd (get_d2v self c v wn m d e w))) c v wn m d e
           (snd (snd (get_d2v self c v wn m d e w))))
       = fst (get_d2v self c v wn m d e w)
   \<and> fst (get_nd2v (fst (snd (get_nd2v self c nz w))) c nz (snd (snd (get_nd2v self c nz w))))
       = fst (get_nd2v self c nz w)
   \<and> fst (get_label (fst (snd (get_label self w))) (snd (snd (get_label self w))))
       = fst (get_label self w)
   \<and> fst (snd (get_onehot self c s n w)) = self
   \<and> fst (snd (get_d2v self c v wn m d e w)) = self
   \<and> fst (snd (get_nd2v self c nz w)) = self
   \<and> fst (snd (get_label self w)) = self
   \<and> fs (snd (snd (get_onehot self c s n w))) = fs w
   \<and> fs (snd (snd (get_d2v self c v wn m d e w))) = fs w
   \<and> fs (snd (snd (get_nd2v self c nz w))) = fs w
   \<and> fs (snd (snd (get_label self w))) = fs w"
proof (intro conjI impI)
  assume eq: "fs w' = fs w"
  show "fst (get_onehot self c s n w') = fst (get_onehot self c s n w)"
    using eq by (rule get_onehot_result_fs)
  show "fst (get_d2v self c v wn m d e w') = fst (get_d2v self c v wn m d e w)"
    using eq by (rule get_d2v_result_fs)
  show "fst (get_nd2v self c nz w') = fst (get_nd2v self c nz w)"
    using eq by (rule get_nd2v_result_fs)
  show "fst (get_label self w') = fst (get_label self w)"
    using eq by (rule get_label_result_fs)
next
  show "fst (get_onehot (fst (snd (get_onehot self c s n w))) c s n
           (snd (snd (get_onehot self c s n w))))
       = fst (get_onehot self c s n w)"
    by (simp only: get_onehot_self get_onehot_result_fs [OF get_onehot_fs])
  show "fst (get_d2v (fst (snd (get_d2v self c v wn m d e w))) c v wn m d e
           (snd (snd (get_d2v self c v wn m d e w))))
       = fst (get_d2v self c v wn m d e w)"
    by (simp only: get_d2v_self get_d2v_result_fs [OF get_d2v_fs])
  show "fst (get_nd2v (fst (snd (get_nd2v self c nz w))) c nz (snd (snd (get_nd2v self c nz w))))
       = fst (get_nd2v self c nz w)"
    by (simp only: get_nd2v_self get_nd2v_result_fs [OF get_nd2v_fs])
  show "fst (get_label (fst (snd (get_label self w))) (snd (snd (get_label self w))))
       = fst (get_label self w)"
    by (simp only: get_label_self get_label_result_fs [OF get_label_fs])
  show "fst (snd (get_onehot self c s n w)) = self" by (rule get_onehot_self)
  show "fst (snd (get_d2v self c v wn m d e w)) = self" by (rule get_d2v_self)
  show "fst (snd (get_nd2v self c nz w)) = self" by (rule get_nd2v_self)
  show "fst (snd (get_label self w)) = self" by (rule get_label_self)
  show "fs (snd (snd (get_onehot self c s n w))) = fs w" by (rule get_onehot_fs)
  show "fs (snd (snd (get_d2v self c v wn m d e w))) = fs w" by (rule get_d2v_fs)
  show "fs (snd (snd (get_nd2v self c nz w))) = fs w" by (rule get_nd2v_fs)
  show "fs (snd (snd (get_label self w))) = fs w" by (rule get_label_fs)
qed

theorem loads_are_repeatable_witness:
  "fst (get_onehot example_loader (PStr ''title'') (PStr ''count'') (PBool False)
          (example_world\<lparr>stdout := [Line ''earlier output''],
             io_log := [Open ''embeddings/label.pkl'']\<rparr>))
     = Inr (Sparse \<lparr>sp_rows = 2, sp_cols = 3, sp_entries = [(0, 1, 1), (1, 2, 4)]\<rparr>)
   \<and> fst (get_nd2v
          (fst (snd (get_nd2v example_loader (PStr ''text'') PNone example_world)))
          (PStr ''text'') PNone
          (snd (snd (get_nd2v example_loader (PStr ''text'') PNone example_world))))
     = Inr (Dense \<lparr>nd_rows = 2, nd_cols = 2, nd_data = [[1, 0], [0, 1]]\<rparr>)
   \<and> parent_dir (fst (snd (get_d2v example_loader (PStr ''concat'') (PInt 300) (PInt 13)
          (PInt 5) (PBool False) (PInt 100) example_world))) = ''embeddings''"
proof -
  note T = loads_are_repeatable [where self = example_loader and w = example_world]
  have 1: "fst (get_onehot example_loader (PStr ''title'') (PStr ''count'') (PBool False)
          (example_world\<lparr>stdout := [Line ''earlier output''],
             io_log := [Open ''embeddings/label.pkl'']\<rparr>))
     = fst (get_onehot example_loader (PStr ''title'') (PStr ''count'') (PBool False)
          example_world)"
    using T [where w' = "example_world\<lparr>stdout := [Line ''earlier output''],
             io_log := [Open ''embeddings/label.pkl'']\<rparr>"
        and c = "PStr ''title''" and s = "PStr ''count''" and n = "PBool False"]
    by simp
  have 2: "fst (get_nd2v
          (fst (snd (get_nd2v example_loader (PStr ''text'') PNone example_world)))
          (PStr ''text'') PNone
          (snd (snd (get_nd2v example_loader (PStr ''text'') PNone example_world))))
     = fst (get_nd2v example_loader (PStr ''text'') PNone example_world)"
    by (rule T [where c = "PStr ''text''" and nz = PNone,
          THEN conjunct2, THEN conjunct2, THEN conjunct2, THEN conjunct1])
  have 3: "fst (snd (get_d2v example_loader (PStr ''concat'') (PInt 300) (PInt 13)
          (PInt 5) (PBool False) (PInt 100) example_world)) = example_loader"
    by (rule T [where c = "PStr ''concat''" and v = "PInt 300" and wn = "PInt 13"
          and m = "PInt 5" and d = "PBool False" and e = "PInt 100",
          THEN conjunct2, THEN conjunct2, THEN conjunct2, THEN conjunct2, THEN conjunct2,
          THEN conjunct2, THEN conjunct1])
  have 4: "parent_dir example_loader = ''embeddings''"
    by (simp add: example_loader_def)
  show ?thesis
    using 1 2 3 4
    by (simp add: example_onehot_count example_nd2v_none)
qed














end
